theory Spec2Isabelle
  imports Complex_Main
begin

section \<open>Values, exceptions and the Python operations the program relies on\<close>

text \<open>
  The program (OKX_AI_ETHv5.py) handles decoded JSON throughout: the exchange's replies,
  the model's reply and the decision dictionary are all values of Python's JSON data
  model. A dictionary is an association list read with \<open>map_of\<close>. A finite number
  is a rational, whether Python holds it as an int or as a float (rounding is not
  modelled); the decoder also delivers the floats NaN, Infinity and -Infinity, which
  \<open>json.loads\<close> accepts as literals.
\<close>

datatype json =
    JNull
  | JBool bool
  | JNum rat
  | JNaN
  | JPosInf
  | JNegInf
  | JStr string
  | JArr "json list"
  | JObj "(string \<times> json) list"

text \<open>The values of Python's float arithmetic: finite numbers, NaN and the two
  infinities.\<close>

datatype pyfloat = Fin rat | NaN | PInf | NInf

text \<open>The subclasses of Python's \<open>Exception\<close> that occur; all are caught by
  \<open>except Exception\<close> and by a bare \<open>except\<close>.\<close>

datatype exn =
    TypeError
  | ValueError
  | KeyError
  | IndexError
  | AttributeError
  | OverflowError
  | ApiError
  | RequestError
  | OtherError

subsection \<open>Fallible pure computations\<close>

definition ex_bind :: "exn + 'a \<Rightarrow> ('a \<Rightarrow> exn + 'b) \<Rightarrow> exn + 'b" where
  "ex_bind m f = (case m of Inl e \<Rightarrow> Inl e | Inr x \<Rightarrow> f x)"

definition ex_try :: "exn + 'a \<Rightarrow> (exn \<Rightarrow> exn + 'a) \<Rightarrow> exn + 'a" where
  "ex_try m h = (case m of Inl e \<Rightarrow> h e | Inr x \<Rightarrow> Inr x)"

subsection \<open>Python's operators on JSON values\<close>

fun is_substring :: "string \<Rightarrow> string \<Rightarrow> bool" where
  "is_substring needle [] = (needle = [])"
| "is_substring needle (c # cs) =
     (take (length needle) (c # cs) = needle \<or> is_substring needle cs)"

text \<open>\<open>k in x\<close> for a string \<open>k\<close>: key membership in a dict, element membership
  in a list, substring test in a str, TypeError otherwise.\<close>

fun py_contains :: "string \<Rightarrow> json \<Rightarrow> exn + bool" where
  "py_contains k (JObj kvs) = Inr (map_of kvs k \<noteq> None)"
| "py_contains k (JArr xs) = Inr (JStr k \<in> set xs)"
| "py_contains k (JStr s) = Inr (is_substring k s)"
| "py_contains k JNull = Inl TypeError"
| "py_contains k (JBool b) = Inl TypeError"
| "py_contains k (JNum r) = Inl TypeError"
| "py_contains k JNaN = Inl TypeError"
| "py_contains k JPosInf = Inl TypeError"
| "py_contains k JNegInf = Inl TypeError"

text \<open>\<open>x[k]\<close> for a string \<open>k\<close>: lookup in a dict (KeyError when absent),
  TypeError on every other value.\<close>

fun py_getitem :: "json \<Rightarrow> string \<Rightarrow> exn + json" where
  "py_getitem (JObj kvs) k = (case map_of kvs k of None \<Rightarrow> Inl KeyError | Some v \<Rightarrow> Inr v)"
| "py_getitem (JArr xs) k = Inl TypeError"
| "py_getitem (JStr s) k = Inl TypeError"
| "py_getitem JNull k = Inl TypeError"
| "py_getitem (JBool b) k = Inl TypeError"
| "py_getitem (JNum r) k = Inl TypeError"
| "py_getitem JNaN k = Inl TypeError"
| "py_getitem JPosInf k = Inl TypeError"
| "py_getitem JNegInf k = Inl TypeError"

text \<open>\<open>x[0]\<close>.\<close>

fun py_index0 :: "json \<Rightarrow> exn + json" where
  "py_index0 (JArr xs) = (case xs of [] \<Rightarrow> Inl IndexError | x # _ \<Rightarrow> Inr x)"
| "py_index0 (JStr s) = (case s of [] \<Rightarrow> Inl IndexError | c # _ \<Rightarrow> Inr (JStr [c]))"
| "py_index0 (JObj kvs) = Inl KeyError"
| "py_index0 JNull = Inl TypeError"
| "py_index0 (JBool b) = Inl TypeError"
| "py_index0 (JNum r) = Inl TypeError"
| "py_index0 JNaN = Inl TypeError"
| "py_index0 JPosInf = Inl TypeError"
| "py_index0 JNegInf = Inl TypeError"

text \<open>\<open>x.get(k, d)\<close>: a dict method; AttributeError on every other value.\<close>

fun py_get :: "json \<Rightarrow> string \<Rightarrow> json \<Rightarrow> exn + json" where
  "py_get (JObj kvs) k d = (case map_of kvs k of None \<Rightarrow> Inr d | Some v \<Rightarrow> Inr v)"
| "py_get (JArr xs) k d = Inl AttributeError"
| "py_get (JStr s) k d = Inl AttributeError"
| "py_get JNull k d = Inl AttributeError"
| "py_get (JBool b) k d = Inl AttributeError"
| "py_get (JNum r) k d = Inl AttributeError"
| "py_get JNaN k d = Inl AttributeError"
| "py_get JPosInf k d = Inl AttributeError"
| "py_get JNegInf k d = Inl AttributeError"

text \<open>Truth value and \<open>len\<close>.\<close>

fun py_truthy :: "json \<Rightarrow> bool" where
  "py_truthy JNull = False"
| "py_truthy (JBool b) = b"
| "py_truthy (JNum r) = (r \<noteq> 0)"
| "py_truthy JNaN = True"
| "py_truthy JPosInf = True"
| "py_truthy JNegInf = True"
| "py_truthy (JStr s) = (s \<noteq> [])"
| "py_truthy (JArr xs) = (xs \<noteq> [])"
| "py_truthy (JObj kvs) = (kvs \<noteq> [])"

fun py_len :: "json \<Rightarrow> exn + nat" where
  "py_len (JStr s) = Inr (length s)"
| "py_len (JArr xs) = Inr (length xs)"
| "py_len (JObj kvs) = Inr (length (remdups (map fst kvs)))"
| "py_len JNull = Inl TypeError"
| "py_len (JBool b) = Inl TypeError"
| "py_len (JNum r) = Inl TypeError"
| "py_len JNaN = Inl TypeError"
| "py_len JPosInf = Inl TypeError"
| "py_len JNegInf = Inl TypeError"

text \<open>The number a value stands for in a comparison with a float: int, float and bool
  (a subclass of int) are numbers, everything else raises. An int is compared by its exact
  value.\<close>

fun py_number :: "json \<Rightarrow> exn + pyfloat" where
  "py_number (JNum r) = Inr (Fin r)"
| "py_number (JBool b) = Inr (Fin (if b then 1 else 0))"
| "py_number JNaN = Inr NaN"
| "py_number JPosInf = Inr PInf"
| "py_number JNegInf = Inr NInf"
| "py_number (JStr s) = Inl TypeError"
| "py_number JNull = Inl TypeError"
| "py_number (JArr xs) = Inl TypeError"
| "py_number (JObj kvs) = Inl TypeError"

text \<open>\<open><\<close> and \<open><=\<close> on floats: every comparison with NaN is False. \<open>a > b\<close> is
  \<open>b < a\<close> and \<open>a >= b\<close> is \<open>b <= a\<close>.\<close>

fun fl_lt :: "pyfloat \<Rightarrow> pyfloat \<Rightarrow> bool" where
  "fl_lt (Fin a) (Fin b) = (a < b)"
| "fl_lt (Fin a) PInf = True"
| "fl_lt (Fin a) NInf = False"
| "fl_lt (Fin a) NaN = False"
| "fl_lt NInf (Fin b) = True"
| "fl_lt NInf PInf = True"
| "fl_lt NInf NInf = False"
| "fl_lt NInf NaN = False"
| "fl_lt PInf b = False"
| "fl_lt NaN b = False"

fun fl_le :: "pyfloat \<Rightarrow> pyfloat \<Rightarrow> bool" where
  "fl_le (Fin a) (Fin b) = (a \<le> b)"
| "fl_le (Fin a) PInf = True"
| "fl_le (Fin a) NInf = False"
| "fl_le (Fin a) NaN = False"
| "fl_le NInf (Fin b) = True"
| "fl_le NInf PInf = True"
| "fl_le NInf NInf = True"
| "fl_le NInf NaN = False"
| "fl_le PInf (Fin b) = False"
| "fl_le PInf PInf = True"
| "fl_le PInf NInf = False"
| "fl_le PInf NaN = False"
| "fl_le NaN b = False"

abbreviation fl_gt :: "pyfloat \<Rightarrow> pyfloat \<Rightarrow> bool" where
  "fl_gt a b \<equiv> fl_lt b a"

abbreviation fl_ge :: "pyfloat \<Rightarrow> pyfloat \<Rightarrow> bool" where
  "fl_ge a b \<equiv> fl_le b a"

text \<open>The arithmetic the program does: adding a finite number, dividing by a positive
  finite number, the absolute value.\<close>

fun fl_add :: "pyfloat \<Rightarrow> rat \<Rightarrow> pyfloat" where
  "fl_add (Fin a) c = Fin (a + c)"
| "fl_add NaN c = NaN"
| "fl_add PInf c = PInf"
| "fl_add NInf c = NInf"

fun fl_div :: "pyfloat \<Rightarrow> rat \<Rightarrow> pyfloat" where
  "fl_div (Fin a) c = Fin (a / c)"
| "fl_div NaN c = NaN"
| "fl_div PInf c = PInf"
| "fl_div NInf c = NInf"

fun fl_abs :: "pyfloat \<Rightarrow> pyfloat" where
  "fl_abs (Fin a) = Fin \<bar>a\<bar>"
| "fl_abs NaN = NaN"
| "fl_abs PInf = PInf"
| "fl_abs NInf = PInf"

fun fl_json :: "pyfloat \<Rightarrow> json" where
  "fl_json (Fin a) = JNum a"
| "fl_json NaN = JNaN"
| "fl_json PInf = JPosInf"
| "fl_json NInf = JNegInf"

text \<open>A float format specification such as \<open>:.2f\<close>: a float is formatted as it is
  (\<open>nan\<close>, \<open>inf\<close>), an int or bool is converted to a float first, which raises
  OverflowError when its magnitude is at least \<open>2^1024 - 2^970\<close>; a str raises
  ValueError, every other value TypeError. A finite float lies below that bound, so a
  finite number at or above it is an int.\<close>

definition FLOAT_LIMIT :: rat where
  "FLOAT_LIMIT = 2 ^ 1024 - 2 ^ 970"

fun py_format_float :: "json \<Rightarrow> exn + unit" where
  "py_format_float (JNum r) = (if \<bar>r\<bar> \<ge> FLOAT_LIMIT then Inl OverflowError else Inr ())"
| "py_format_float (JBool b) = Inr ()"
| "py_format_float JNaN = Inr ()"
| "py_format_float JPosInf = Inr ()"
| "py_format_float JNegInf = Inr ()"
| "py_format_float (JStr s) = Inl ValueError"
| "py_format_float JNull = Inl TypeError"
| "py_format_float (JArr xs) = Inl TypeError"
| "py_format_float (JObj kvs) = Inl TypeError"

text \<open>\<open>all(field in x for field in fields)\<close>: stops at the first False, raises at
  the first failing test.\<close>

fun py_all_in :: "string list \<Rightarrow> json \<Rightarrow> exn + bool" where
  "py_all_in [] x = Inr True"
| "py_all_in (f # fs) x =
     ex_bind (py_contains f x) (\<lambda>b. if b then py_all_in fs x else Inr False)"

section \<open>The environment: standard library, exchange and model endpoint\<close>

text \<open>
  What the program calls but does not define is a field of the environment: the standard
  library's JSON decoder, regular-expression engine and string methods (Unicode aware,
  hence not reconstructed on byte strings), float parsing and formatting, the exchange
  behind \<open>_make_request\<close> and the chat endpoint. A library call that can raise
  returns a sum. Every theorem below holds for all environments.
  \<^item> \<open>json_loads\<close> is \<open>json.loads\<close>.
  \<^item> \<open>re_findall_template\<close> is \<open>re.findall\<close> with the template pattern of
    \<open>_parse_ai_response\<close> (v5) and \<open>re.DOTALL\<close>; \<open>re_finditer_nested\<close> gives the
    \<open>group()\<close> of every match of \<open>re.finditer\<close> with the nested-object pattern (v1).
  \<^item> \<open>clean_json_str\<close> is the cleaning of a match: the two \<open>replace\<close> calls,
    \<open>re.sub\<close> of white space and \<open>strip\<close>.
  \<^item> \<open>re_search_action i\<close> and \<open>re_search_reason i\<close> give \<open>group(1)\<close> of
    \<open>re.search\<close> with the i-th action or reason pattern and \<open>re.IGNORECASE\<close>.
  \<^item> \<open>str_lower\<close>, \<open>str_strip\<close> are the string methods; \<open>py_float\<close> is
    \<open>float\<close>; \<open>fmt_2f\<close> formats with \<open>:.2f\<close>; \<open>py_str\<close> is \<open>str\<close> of a
    number; \<open>str_exn\<close> is \<open>str\<close> of an exception.
  \<^item> \<open>exchange n method endpoint params\<close> is the outcome of the request that follows
    \<open>n\<close> earlier ones; \<open>deepseek n prompt\<close> is the decoded body of the chat
    completion that follows \<open>n\<close> earlier ones, or the exception of the call.
\<close>

record env =
  json_loads :: "string \<Rightarrow> exn + json"
  re_findall_template :: "string \<Rightarrow> exn + string list"
  clean_json_str :: "string \<Rightarrow> exn + string"
  re_search_action :: "nat \<Rightarrow> string \<Rightarrow> exn + string option"
  re_search_reason :: "nat \<Rightarrow> string \<Rightarrow> exn + string option"
  re_finditer_nested :: "string \<Rightarrow> exn + string list"
  str_lower :: "string \<Rightarrow> string"
  str_strip :: "string \<Rightarrow> string"
  py_float :: "json \<Rightarrow> exn + pyfloat"
  candles_to_klines :: "json \<Rightarrow> exn + json"
  mock_klines :: json
  fmt_2f :: "pyfloat \<Rightarrow> string"
  py_str :: "pyfloat \<Rightarrow> string"
  str_exn :: "exn \<Rightarrow> string"
  exchange :: "nat \<Rightarrow> string \<Rightarrow> string \<Rightarrow> json \<Rightarrow> exn + json"
  deepseek :: "nat \<Rightarrow> json \<Rightarrow> exn + json"

section \<open>Configuration constants\<close>

definition SYMBOL :: string where "SYMBOL = ''ETH-USDT-SWAP''"
definition LEVERAGE :: rat where "LEVERAGE = 100"
definition MIN_ORDER_SIZE :: rat where "MIN_ORDER_SIZE = 0.001"
definition MAX_ORDER_SIZE :: rat where "MAX_ORDER_SIZE = 0.010"
definition AI_FREQUENCY :: int where "AI_FREQUENCY = 300"
definition CHECK_PENDING_ORDERS_INTERVAL :: int where "CHECK_PENDING_ORDERS_INTERVAL = 30"

section \<open>DeepSeekAI: validating and parsing the model's reply\<close>

definition valid_actions :: "string list" where
  "valid_actions = [''hold'', ''open_long'', ''open_short'']"

definition valid_confidences :: "string list" where
  "valid_confidences = [''high'', ''medium'', ''low'']"

text \<open>The body of \<open>_validate_decision_format\<close>, inside its \<open>try\<close>.\<close>

definition validate_body :: "json \<Rightarrow> exn + bool" where
  "validate_body decision =
     ex_bind (py_contains ''trading_decision'' decision) (\<lambda>has_td.
     ex_bind (if has_td then py_contains ''position_management'' decision else Inr False) (\<lambda>has_pm.
       if \<not> has_td \<or> \<not> has_pm then Inr False
       else
     ex_bind (py_getitem decision ''trading_decision'') (\<lambda>td.
     ex_bind (py_getitem decision ''position_management'') (\<lambda>pm.
     ex_bind (py_all_in [''action'', ''confidence_level'', ''reason''] td) (\<lambda>td_ok.
       if \<not> td_ok then Inr False
       else
     ex_bind (py_all_in [''position_size'', ''stop_loss_price'', ''take_profit_price''] pm) (\<lambda>pm_ok.
       if \<not> pm_ok then Inr False
       else
     ex_bind (py_getitem td ''action'') (\<lambda>a.
       if a \<notin> set (map JStr valid_actions) then Inr False
       else
     ex_bind (py_getitem td ''confidence_level'') (\<lambda>c.
       if c \<notin> set (map JStr valid_confidences) then Inr False
       else Inr True))))))))"

text \<open>\<open>_validate_decision_format\<close>: any exception in the body gives False.\<close>

definition validate_decision_format :: "json \<Rightarrow> bool" where
  "validate_decision_format decision =
     (case validate_body decision of Inl e \<Rightarrow> False | Inr b \<Rightarrow> b)"

text \<open>The decision dictionary, as the program's dict literals lay it out.\<close>

definition mk_decision :: "string \<Rightarrow> string \<Rightarrow> string \<Rightarrow> json \<Rightarrow> json \<Rightarrow> json \<Rightarrow> json" where
  "mk_decision action confidence reason psize sl tp =
     JObj [(''trading_decision'',
              JObj [(''action'', JStr action),
                    (''confidence_level'', JStr confidence),
                    (''reason'', JStr reason)]),
           (''position_management'',
              JObj [(''position_size'', psize),
                    (''stop_loss_price'', sl),
                    (''take_profit_price'', tp)])]"

text \<open>The two fixed reason texts, as UTF-8 bytes.\<close>

definition reason_default :: string where
  "reason_default =
     [CHR 0xE5, CHR 0x9F, CHR 0xBA, CHR 0xE4, CHR 0xBA, CHR 0x8E, CHR 0xE5, CHR 0xB8, CHR 0x82,
      CHR 0xE5, CHR 0x9C, CHR 0xBA, CHR 0xE5, CHR 0x88, CHR 0x86, CHR 0xE6, CHR 0x9E, CHR 0x90,
      CHR 0xE5, CHR 0x81, CHR 0x9A, CHR 0xE5, CHR 0x87, CHR 0xBA, CHR 0xE7, CHR 0x9A, CHR 0x84,
      CHR 0xE5, CHR 0x86, CHR 0xB3, CHR 0xE7, CHR 0xAD, CHR 0x96]"

definition reason_parse_failed :: string where
  "reason_parse_failed =
     [CHR ''A'', CHR ''I'', CHR 0xE5, CHR 0x93, CHR 0x8D, CHR 0xE5, CHR 0xBA, CHR 0x94,
      CHR 0xE8, CHR 0xA7, CHR 0xA3, CHR 0xE6, CHR 0x9E, CHR 0x90, CHR 0xE5, CHR 0xA4, CHR 0xB1,
      CHR 0xE8, CHR 0xB4, CHR 0xA5, CHR 0xEF, CHR 0xBC, CHR 0x8C, CHR 0xE9, CHR 0x87, CHR 0x87,
      CHR 0xE7, CHR 0x94, CHR 0xA8, CHR 0xE4, CHR 0xBF, CHR 0x9D, CHR 0xE5, CHR 0xAE, CHR 0x88,
      CHR 0xE7, CHR 0xAD, CHR 0x96, CHR 0xE7, CHR 0x95, CHR 0xA5]"

text \<open>The loop over \<open>action_patterns\<close> in \<open>_build_standard_decision_from_response\<close>:
  \<open>re_search_action env i\<close> is \<open>group(1)\<close> of \<open>re.search\<close> with the i-th
  pattern (None when there is no match); the loop breaks at the first valid action.\<close>

fun extract_action :: "env \<Rightarrow> string \<Rightarrow> nat list \<Rightarrow> string \<Rightarrow> exn + string" where
  "extract_action env response [] cur = Inr cur"
| "extract_action env response (i # rest) cur =
     ex_bind (re_search_action env i response) (\<lambda>m.
       case m of
         None \<Rightarrow> extract_action env response rest cur
       | Some g \<Rightarrow>
           (let action = str_lower env g in
            if action \<in> set valid_actions then Inr action
            else extract_action env response rest cur))"

text \<open>The loop over \<open>reason_patterns\<close>: breaks at the first non-empty stripped group.\<close>

fun extract_reason :: "env \<Rightarrow> string \<Rightarrow> nat list \<Rightarrow> string \<Rightarrow> exn + string" where
  "extract_reason env response [] cur = Inr cur"
| "extract_reason env response (i # rest) cur =
     ex_bind (re_search_reason env i response) (\<lambda>m.
       case m of
         None \<Rightarrow> extract_reason env response rest cur
       | Some g \<Rightarrow>
           (let reason = str_strip env g in
            if reason \<noteq> [] then Inr reason
            else extract_reason env response rest cur))"

text \<open>\<open>_build_standard_decision_from_response\<close>: an exception is re-raised.\<close>

definition build_standard_decision_from_response :: "env \<Rightarrow> string \<Rightarrow> exn + json" where
  "build_standard_decision_from_response env response =
     ex_try
       (ex_bind (extract_action env response [0, 1, 2] ''hold'') (\<lambda>action.
        ex_bind (extract_reason env response [0, 1, 2] []) (\<lambda>reason.
          Inr (mk_decision action ''medium''
                 (if reason = [] then reason_default else reason)
                 (JNum 0) (JNum 0) (JNum 0)))))
       (\<lambda>e. Inl e)"

text \<open>The loop over the template matches in \<open>_parse_ai_response\<close>: a candidate that
  fails to decode or to validate is skipped.\<close>

fun try_matches :: "env \<Rightarrow> string list \<Rightarrow> json option" where
  "try_matches env [] = None"
| "try_matches env (m # ms) =
     (case ex_bind (clean_json_str env m) (json_loads env) of
        Inl e \<Rightarrow> try_matches env ms
      | Inr decision \<Rightarrow>
          if validate_decision_format decision then Some decision
          else try_matches env ms)"

definition default_hold_decision :: json where
  "default_hold_decision =
     mk_decision ''hold'' ''low'' reason_parse_failed (JNum 0) (JNum 0) (JNum 0)"

text \<open>The first step of \<open>_parse_ai_response\<close>: the whole reply as JSON.\<close>

definition parse_whole :: "env \<Rightarrow> string \<Rightarrow> json option" where
  "parse_whole env response =
     (case json_loads env response of
        Inl e \<Rightarrow> None
      | Inr decision \<Rightarrow> if validate_decision_format decision then Some decision else None)"

text \<open>\<open>_parse_ai_response\<close> (v5).\<close>

definition parse_ai_response :: "env \<Rightarrow> string \<Rightarrow> exn + json" where
  "parse_ai_response env response =
     ex_try
       (case parse_whole env response of
          Some decision \<Rightarrow> Inr decision
        | None \<Rightarrow>
            ex_bind (re_findall_template env response) (\<lambda>matches.
              case try_matches env matches of
                Some decision \<Rightarrow> Inr decision
              | None \<Rightarrow> build_standard_decision_from_response env response))
       (\<lambda>e. Inr default_hold_decision)"

section \<open>Effects: the trace of one run\<close>

text \<open>
  A run is observed through the calls it makes: every call of \<open>_make_request\<close>
  (method, endpoint, parameters), every request to the chat endpoint, every
  \<open>time.sleep\<close>, the line the bracket retry loop writes at the start of each
  attempt, and the assignment of the bracket identifiers to \<open>current_tp_sl_orders\<close>. The other telemetry lines (\<open>write_echo\<close>, \<open>write_error\<close>, which swallow
  their own failures) are left out; where such a line formats a value with a float
  format specification, the check that the value is a number is kept.
\<close>

datatype event =
    Request string string json
  | AiRequest json
  | Sleep rat
  | AttemptLine nat int
  | RecordIds json json

type_synonym world = "event list"

type_synonym 'a io = "world \<Rightarrow> (exn + 'a) \<times> world"

definition io_ret :: "'a \<Rightarrow> 'a io" where
  "io_ret x w = (Inr x, w)"

definition io_raise :: "exn \<Rightarrow> 'a io" where
  "io_raise e w = (Inl e, w)"

definition io_lift :: "exn + 'a \<Rightarrow> 'a io" where
  "io_lift r w = (r, w)"

definition io_bind :: "'a io \<Rightarrow> ('a \<Rightarrow> 'b io) \<Rightarrow> 'b io" where
  "io_bind m f w = (case m w of (Inl e, w') \<Rightarrow> (Inl e, w') | (Inr x, w') \<Rightarrow> f x w')"

text \<open>\<open>try: m except Exception as e: h e\<close>.\<close>

definition io_try :: "'a io \<Rightarrow> (exn \<Rightarrow> 'a io) \<Rightarrow> 'a io" where
  "io_try m h w = (case m w of (Inl e, w') \<Rightarrow> h e w' | (Inr x, w') \<Rightarrow> (Inr x, w'))"

definition emit :: "event \<Rightarrow> unit io" where
  "emit ev w = (Inr (), w @ [ev])"

definition sleep :: "rat \<Rightarrow> unit io" where
  "sleep seconds = emit (Sleep seconds)"

text \<open>\<open>for i in range(start, start + n): body i\<close>, where the body may return from
  the enclosing function (\<open>Some v\<close>) or fall through to the next round (\<open>None\<close>).\<close>

fun for_range :: "nat \<Rightarrow> nat \<Rightarrow> (nat \<Rightarrow> 'a option io) \<Rightarrow> 'a option io" where
  "for_range i 0 body = io_ret None"
| "for_range i (Suc n) body =
     io_bind (body i) (\<lambda>r.
       case r of
         Some v \<Rightarrow> io_ret (Some v)
       | None \<Rightarrow> for_range (Suc i) n body)"

fun is_request :: "event \<Rightarrow> bool" where
  "is_request (Request m e p) = True"
| "is_request (AiRequest p) = False"
| "is_request (Sleep s) = False"
| "is_request (AttemptLine k n) = False"
| "is_request (RecordIds a b) = False"

fun is_ai_request :: "event \<Rightarrow> bool" where
  "is_ai_request (AiRequest p) = True"
| "is_ai_request (Request m e p) = False"
| "is_ai_request (Sleep s) = False"
| "is_ai_request (AttemptLine k n) = False"
| "is_ai_request (RecordIds a b) = False"

definition requests_of :: "world \<Rightarrow> event list" where
  "requests_of w = filter is_request w"

section \<open>OKXDataCollector\<close>

text \<open>\<open>_make_request\<close>: signing and HTTP are the environment's; the call is recorded
  and the exchange answers with the \<open>data\<close> member or an exception (transport error,
  HTTP status, non-zero \<open>code\<close>). The answer may depend on how many requests were made
  before and on the request.\<close>

definition make_request :: "env \<Rightarrow> string \<Rightarrow> string \<Rightarrow> json \<Rightarrow> json io" where
  "make_request env method endpoint params w =
     (exchange env (length (requests_of w)) method endpoint params,
      w @ [Request method endpoint params])"

record position_info =
  position_side :: string
  position_size :: pyfloat
  entry_price :: pyfloat
  leverage :: rat

definition flat_position :: position_info where
  "flat_position =
     \<lparr>position_side = ''flat'', position_size = Fin 0, entry_price = Fin 0,
      leverage = LEVERAGE\<rparr>"

text \<open>\<open>data and len(data) > 0\<close>.\<close>

definition nonempty_data :: "json \<Rightarrow> exn + bool" where
  "nonempty_data data =
     (if py_truthy data then ex_bind (py_len data) (\<lambda>n. Inr (n > 0)) else Inr False)"

definition get_position_info :: "env \<Rightarrow> position_info io" where
  "get_position_info env =
     io_try
       (io_bind (make_request env ''GET'' ''/api/v5/account/positions''
                   (JObj [(''instId'', JStr SYMBOL)])) (\<lambda>data.
        io_bind (io_lift (nonempty_data data)) (\<lambda>has_data.
          if has_data then
            io_bind (io_lift (py_index0 data)) (\<lambda>pos.
            io_bind (io_lift (ex_bind (py_get pos ''pos'' (JStr ''0'')) (py_float env))) (\<lambda>pos_size.
              if fl_gt pos_size (Fin 0) then
                io_bind (io_lift (ex_bind (py_get pos ''avgPx'' (JStr ''0'')) (py_float env))) (\<lambda>px.
                  io_ret (flat_position\<lparr>position_side := ''long'', position_size := pos_size,
                                          entry_price := px\<rparr>))
              else if fl_lt pos_size (Fin 0) then
                io_bind (io_lift (ex_bind (py_get pos ''avgPx'' (JStr ''0'')) (py_float env))) (\<lambda>px.
                  io_ret (flat_position\<lparr>position_side := ''short'', position_size := fl_abs pos_size,
                                          entry_price := px\<rparr>))
              else io_ret flat_position))
          else io_ret flat_position)))
       (\<lambda>e. io_ret flat_position)"

definition get_algo_orders :: "env \<Rightarrow> json io" where
  "get_algo_orders env =
     io_try
       (make_request env ''GET'' ''/api/v5/trade/orders-algo-pending''
          (JObj [(''instType'', JStr ''SWAP''), (''ordType'', JStr ''conditional''),
                 (''instId'', JStr SYMBOL)]))
       (\<lambda>e. io_ret (JArr []))"

definition get_pending_orders :: "env \<Rightarrow> json io" where
  "get_pending_orders env =
     io_try
       (make_request env ''GET'' ''/api/v5/trade/orders-pending''
          (JObj [(''instId'', JStr SYMBOL)]))
       (\<lambda>e. io_ret (JArr []))"

text \<open>\<open>has_pending_orders_or_tpsl\<close>: the three sources are queried in turn, and the
  first that shows exposure answers.\<close>

definition has_pending_orders_or_tpsl :: "env \<Rightarrow> bool io" where
  "has_pending_orders_or_tpsl env =
     io_try
       (io_bind (get_pending_orders env) (\<lambda>pending_orders.
        io_bind (io_lift (nonempty_data pending_orders)) (\<lambda>has_orders.
          if has_orders then io_ret True
          else
        io_bind (get_algo_orders env) (\<lambda>algo_orders.
        io_bind (io_lift (nonempty_data algo_orders)) (\<lambda>has_algo.
          if has_algo then io_ret True
          else
        io_bind (get_position_info env) (\<lambda>position_info.
          if fl_gt (position_size position_info) (Fin 0) then io_ret True
          else io_ret False))))))
       (\<lambda>e. io_ret False)"

text \<open>\<open>get_kline_data\<close>: the conversion of the candles (integer and float parsing,
  time stamps) is the environment's, as are the four simulated candles returned when the
  request or the conversion fails.\<close>

definition get_kline_data :: "env \<Rightarrow> json io" where
  "get_kline_data env =
     io_try
       (io_bind (make_request env ''GET'' ''/api/v5/market/candles''
                   (JObj [(''instId'', JStr SYMBOL), (''bar'', JStr ''5m''), (''limit'', JNum 4)])) (\<lambda>data.
          io_lift (candles_to_klines env data)))
       (\<lambda>e. io_ret (mock_klines env))"

record account_status =
  available_OKX :: pyfloat
  total_equity :: pyfloat

definition get_account_balance :: "env \<Rightarrow> account_status io" where
  "get_account_balance env =
     io_try
       (io_bind (make_request env ''GET'' ''/api/v5/account/balance'' JNull) (\<lambda>data.
          if \<not> py_truthy data then io_raise OtherError
          else
        io_bind (io_lift (py_index0 data)) (\<lambda>account_data.
        io_bind (io_lift (py_get account_data ''totalEq'' JNull)) (\<lambda>total_eq.
        io_bind (io_lift (if py_truthy total_eq
                          then ex_bind (py_getitem account_data ''totalEq'') (py_float env)
                          else Inr (Fin 0))) (\<lambda>total.
        io_bind (io_lift (py_get account_data ''details'' JNull)) (\<lambda>details_probe.
        io_bind (io_lift (if py_truthy details_probe
                          then ex_bind (py_getitem account_data ''details'') (\<lambda>ds.
                               ex_bind (py_len ds) (\<lambda>n.
                                 if n > 0 then py_index0 ds else Inr (JObj [])))
                          else Inr (JObj []))) (\<lambda>details.
        io_bind (io_lift (ex_bind (py_get details ''availEq'' (JNum 0)) (py_float env))) (\<lambda>available.
          io_ret \<lparr>available_OKX = available, total_equity = total\<rparr>))))))))
       (\<lambda>e. io_ret \<lparr>available_OKX = Fin 4.51, total_equity = Fin 4.52\<rparr>)"

section \<open>DeepSeekAI: obtaining a decision\<close>

definition position_json :: "position_info \<Rightarrow> json" where
  "position_json p =
     JObj [(''position_side'', JStr (position_side p)),
           (''position_size'', fl_json (position_size p)),
           (''entry_price'', fl_json (entry_price p)),
           (''leverage'', JNum (leverage p))]"

text \<open>\<open>_build_prompt\<close>, before \<open>json.dumps\<close>; \<open>last_profit\<close> is the attribute
  of the same name.\<close>

definition build_prompt :: "json \<Rightarrow> json \<Rightarrow> account_status \<Rightarrow> position_info \<Rightarrow> rat \<Rightarrow> json" where
  "build_prompt current_price klines account position last_profit =
     JObj [(''market_data'',
              JObj [(''current_price'', current_price), (''kline_5min'', klines)]),
           (''account_status'',
              JObj [(''available_OKX'', fl_json (available_OKX account)),
                    (''total_equity'', fl_json (total_equity account)),
                    (''last_profit'', JNum last_profit)]),
           (''position_info'', position_json position)]"

text \<open>The request to the chat endpoint: \<open>requests.post\<close>, \<open>raise_for_status\<close>
  and \<open>response.json()\<close>.\<close>

definition chat_completion :: "env \<Rightarrow> json \<Rightarrow> json io" where
  "chat_completion env prompt w =
     (deepseek env (length (filter is_ai_request w)) prompt, w @ [AiRequest prompt])"

text \<open>\<open>_parse_ai_response\<close> on the \<open>content\<close> member, which need not be a string:
  on any other value both \<open>json.loads\<close> and \<open>re.findall\<close> raise TypeError, the first
  inside the inner \<open>try\<close>, the second into the outer handler.\<close>

definition parse_reply :: "env \<Rightarrow> json \<Rightarrow> exn + json" where
  "parse_reply env ai_response =
     (case ai_response of
        JStr s \<Rightarrow> parse_ai_response env s
      | _ \<Rightarrow> Inr default_hold_decision)"

text \<open>The telemetry lines of \<open>get_trading_decision\<close> that read the decision, in
  order; the size and the two prices are formatted with a float format specification.\<close>

definition echo_decision :: "json \<Rightarrow> exn + unit" where
  "echo_decision decision =
     ex_bind (ex_bind (py_getitem decision ''trading_decision'') (\<lambda>td. py_getitem td ''action'')) (\<lambda>_.
     ex_bind (ex_bind (py_getitem decision ''trading_decision'') (\<lambda>td. py_getitem td ''confidence_level'')) (\<lambda>_.
     ex_bind (ex_bind (py_getitem decision ''trading_decision'') (\<lambda>td. py_getitem td ''reason'')) (\<lambda>_.
     ex_bind (ex_bind (ex_bind (py_getitem decision ''position_management'')
                        (\<lambda>pm. py_getitem pm ''position_size'')) py_format_float) (\<lambda>_.
     ex_bind (ex_bind (ex_bind (py_getitem decision ''position_management'')
                        (\<lambda>pm. py_getitem pm ''take_profit_price'')) py_format_float) (\<lambda>_.
     ex_bind (ex_bind (ex_bind (py_getitem decision ''position_management'')
                        (\<lambda>pm. py_getitem pm ''stop_loss_price'')) py_format_float) (\<lambda>_.
     ex_bind (ex_bind (py_getitem decision ''trading_decision'') (\<lambda>td. py_getitem td ''action'')) (\<lambda>_.
       Inr ())))))))"

definition reason_ai_failed_prefix :: string where
  "reason_ai_failed_prefix =
     [CHR ''A'', CHR ''I'', CHR 0xE5, CHR 0xA4, CHR 0x84, CHR 0xE7, CHR 0x90, CHR 0x86,
      CHR 0xE5, CHR 0xA4, CHR 0xB1, CHR 0xE8, CHR 0xB4, CHR 0xA5, CHR '':'', CHR '' '']"

text \<open>\<open>get_trading_decision\<close>; the attribute \<open>last_profit\<close> is 0.0 from
  the constructor on, since the program never calls \<open>update_profit\<close>.\<close>

definition get_trading_decision ::
  "env \<Rightarrow> json \<Rightarrow> json \<Rightarrow> account_status \<Rightarrow> position_info \<Rightarrow> json io" where
  "get_trading_decision env current_price klines account position =
     io_try
       (io_bind (chat_completion env (build_prompt current_price klines account position 0)) (\<lambda>result.
        io_bind (io_lift
                  (ex_bind (py_getitem result ''choices'') (\<lambda>choices.
                   ex_bind (py_index0 choices) (\<lambda>choice.
                   ex_bind (py_getitem choice ''message'') (\<lambda>message.
                     py_getitem message ''content''))))) (\<lambda>ai_response.
        io_bind (io_lift (parse_reply env ai_response)) (\<lambda>decision.
        io_bind (io_lift (echo_decision decision)) (\<lambda>_.
          io_ret decision)))))
       (\<lambda>e. io_ret (mk_decision ''hold'' ''low'' (reason_ai_failed_prefix @ str_exn env e)
                       (JNum 0) (JNum 0) (JNum 0)))"

section \<open>OKXTradingExecutor\<close>

definition CONTRACT_VALUE :: rat where "CONTRACT_VALUE = 0.1"
definition MIN_CONTRACT_SIZE :: rat where "MIN_CONTRACT_SIZE = 0.01"

text \<open>\<open>_convert_eth_to_contracts\<close>: the lot count, formatted with two decimals.\<close>

definition convert_eth_to_contracts :: "env \<Rightarrow> pyfloat \<Rightarrow> exn + string" where
  "convert_eth_to_contracts env eth_size =
     (let contracts = fl_div eth_size CONTRACT_VALUE in
      if fl_lt contracts (Fin MIN_CONTRACT_SIZE) then Inl ValueError
      else Inr (fmt_2f env contracts))"

text \<open>\<open>_place_order\<close>. The handler inspects the error text only to choose which
  diagnostic line to write; every path through it returns False.\<close>

definition order_params :: "string \<Rightarrow> string \<Rightarrow> string \<Rightarrow> json" where
  "order_params side posSide contract_size =
     JObj [(''instId'', JStr SYMBOL), (''tdMode'', JStr ''cross''),
           (''side'', JStr side), (''ordType'', JStr ''market''),
           (''sz'', JStr contract_size), (''lever'', JStr ''100''),
           (''posSide'', JStr posSide)]"

definition place_order :: "env \<Rightarrow> string \<Rightarrow> pyfloat \<Rightarrow> bool io" where
  "place_order env action eth_size =
     io_try
       (io_bind (if action = ''open_long'' then io_ret (''buy'', ''long'')
                 else if action = ''open_short'' then io_ret (''sell'', ''short'')
                 else io_raise ValueError) (\<lambda>(side, posSide).
        io_bind (io_lift (convert_eth_to_contracts env eth_size)) (\<lambda>contract_size.
        io_bind (make_request env ''POST'' ''/api/v5/trade/order''
                   (order_params side posSide contract_size)) (\<lambda>result.
          io_ret True))))
       (\<lambda>e. io_ret False)"

text \<open>\<open>_get_entry_price_with_retry\<close>; the result \<open>None\<close> is Python's None.\<close>

definition get_entry_price_with_retry :: "env \<Rightarrow> int \<Rightarrow> rat \<Rightarrow> pyfloat option io" where
  "get_entry_price_with_retry env max_retries wait_seconds =
     for_range 0 (nat max_retries) (\<lambda>attempt.
       io_bind
         (io_try
            (io_bind (get_position_info env) (\<lambda>p.
               if fl_gt (position_size p) (Fin 0) \<and> fl_gt (entry_price p) (Fin 0)
               then io_ret (Some (entry_price p))
               else io_ret None))
            (\<lambda>e. io_ret None)) (\<lambda>r.
         case r of
           Some px \<Rightarrow> io_ret (Some px)
         | None \<Rightarrow>
             io_bind (if int attempt < max_retries - 1 then sleep wait_seconds else io_ret ()) (\<lambda>_.
               io_ret None)))"

record algo_ids =
  tp_algo_id :: json
  sl_algo_id :: json

definition algo_params :: "string \<Rightarrow> string \<Rightarrow> string \<Rightarrow> string \<Rightarrow> string \<Rightarrow> string \<Rightarrow> json" where
  "algo_params side sz trigger_key trigger_px ord_key posSide =
     JObj [(''instId'', JStr SYMBOL), (''tdMode'', JStr ''cross''), (''side'', JStr side),
           (''ordType'', JStr ''conditional''), (''sz'', JStr sz),
           (trigger_key, JStr trigger_px), (ord_key, JStr ''-1''), (''posSide'', JStr posSide)]"

text \<open>\<open>_place_tp_sl_order\<close>: two conditional orders, take-profit first; an exception
  is re-raised.\<close>

definition place_tp_sl_order ::
  "env \<Rightarrow> string \<Rightarrow> pyfloat \<Rightarrow> pyfloat \<Rightarrow> pyfloat \<Rightarrow> algo_ids io" where
  "place_tp_sl_order env pos_side eth_size tp_price sl_price =
     io_try
       (io_bind (if pos_side = ''long'' then io_ret ''sell''
                 else if pos_side = ''short'' then io_ret ''buy''
                 else io_raise ValueError) (\<lambda>side.
        io_bind (io_lift (convert_eth_to_contracts env eth_size)) (\<lambda>sz.
        io_bind (make_request env ''POST'' ''/api/v5/trade/order-algo''
                   (algo_params side sz ''tpTriggerPx'' (py_str env tp_price) ''tpOrdPx'' pos_side)) (\<lambda>tp_result.
        io_bind (io_lift (ex_bind (py_index0 tp_result) (\<lambda>r. py_getitem r ''algoId''))) (\<lambda>tp_id.
        io_bind (make_request env ''POST'' ''/api/v5/trade/order-algo''
                   (algo_params side sz ''slTriggerPx'' (py_str env sl_price) ''slOrdPx'' pos_side)) (\<lambda>sl_result.
        io_bind (io_lift (ex_bind (py_index0 sl_result) (\<lambda>r. py_getitem r ''algoId''))) (\<lambda>sl_id.
          io_ret \<lparr>tp_algo_id = tp_id, sl_algo_id = sl_id\<rparr>)))))))
       (\<lambda>e. io_raise e)"

text \<open>Iterating a value: the elements of a list, the keys of a dict, the characters
  of a str.\<close>

fun py_iter :: "json \<Rightarrow> exn + json list" where
  "py_iter (JArr xs) = Inr xs"
| "py_iter (JObj kvs) = Inr (map JStr (remdups (map fst kvs)))"
| "py_iter (JStr s) = Inr (map (\<lambda>c. JStr [c]) s)"
| "py_iter JNull = Inl TypeError"
| "py_iter (JBool b) = Inl TypeError"
| "py_iter (JNum r) = Inl TypeError"
| "py_iter JNaN = Inl TypeError"
| "py_iter JPosInf = Inl TypeError"
| "py_iter JNegInf = Inl TypeError"

text \<open>\<open>any(order['algoId'] == algo_id for order in algo_orders)\<close>; \<open>==\<close> on
  decoded values is equality of values.\<close>

fun any_algo_id :: "json \<Rightarrow> json list \<Rightarrow> exn + bool" where
  "any_algo_id algo_id [] = Inr False"
| "any_algo_id algo_id (order # orders) =
     ex_bind (py_getitem order ''algoId'') (\<lambda>v.
       if v = algo_id then Inr True else any_algo_id algo_id orders)"

definition verify_tp_sl_orders_exist :: "env \<Rightarrow> algo_ids \<Rightarrow> bool io" where
  "verify_tp_sl_orders_exist env ids =
     io_try
       (io_bind (get_algo_orders env) (\<lambda>algo_orders.
        io_bind (io_lift (ex_bind (py_iter algo_orders) (any_algo_id (tp_algo_id ids)))) (\<lambda>tp_exists.
        io_bind (io_lift (ex_bind (py_iter algo_orders) (any_algo_id (sl_algo_id ids)))) (\<lambda>sl_exists.
          io_ret (tp_exists \<and> sl_exists)))))
       (\<lambda>e. io_ret False)"

text \<open>One round of the loop of \<open>_place_tp_sl_orders_with_retry\<close>: \<open>Some True\<close> is
  the \<open>return True\<close> after a successful verification. The dictionary returned by
  \<open>_place_tp_sl_order\<close> has two keys, so the test \<open>if algo_ids\<close> succeeds.\<close>

definition tp_sl_attempt ::
  "env \<Rightarrow> string \<Rightarrow> pyfloat \<Rightarrow> pyfloat \<Rightarrow> pyfloat \<Rightarrow> int \<Rightarrow> nat \<Rightarrow> bool option io" where
  "tp_sl_attempt env pos_side eth_size tp_price sl_price max_retries attempt =
     io_bind
       (io_try
          (io_bind (emit (AttemptLine (attempt + 1) max_retries)) (\<lambda>_.
           io_bind (place_tp_sl_order env pos_side eth_size tp_price sl_price) (\<lambda>ids.
           io_bind (emit (RecordIds (tp_algo_id ids) (sl_algo_id ids))) (\<lambda>_.
           io_bind (sleep 5) (\<lambda>_.
           io_bind (verify_tp_sl_orders_exist env ids) (\<lambda>verified.
             if verified then io_ret (Some True) else io_ret None))))))
          (\<lambda>e. io_ret None)) (\<lambda>r.
       case r of
         Some b \<Rightarrow> io_ret (Some b)
       | None \<Rightarrow>
           io_bind (if int attempt < max_retries - 1 then sleep 5 else io_ret ()) (\<lambda>_.
             io_ret None))"

definition place_tp_sl_orders_with_retry ::
  "env \<Rightarrow> string \<Rightarrow> pyfloat \<Rightarrow> pyfloat \<Rightarrow> pyfloat \<Rightarrow> int \<Rightarrow> bool io" where
  "place_tp_sl_orders_with_retry env pos_side eth_size tp_price sl_price max_retries =
     (if pos_side = ''flat'' \<or> fl_le eth_size (Fin 0) then io_ret True
      else
        io_bind (for_range 0 (nat max_retries)
                   (tp_sl_attempt env pos_side eth_size tp_price sl_price max_retries)) (\<lambda>r.
          case r of
            Some b \<Rightarrow> io_ret b
          | None \<Rightarrow> io_ret False))"

text \<open>The clamping step of \<open>execute_trade\<close>: two comparisons, the second tried when
  the first is False; a value for which both are False is kept.\<close>

definition clamp_position_size :: "json \<Rightarrow> exn + pyfloat" where
  "clamp_position_size raw =
     ex_bind (py_number raw) (\<lambda>position_size.
       if fl_lt position_size (Fin MIN_ORDER_SIZE) then Inr (Fin 0)
       else if fl_gt position_size (Fin MAX_ORDER_SIZE) then Inr (Fin MAX_ORDER_SIZE)
       else Inr position_size)"

text \<open>The bracket prices: entry price plus or minus 10 in test mode, otherwise the
  decision's, which the telemetry line formats with \<open>:.2f\<close> before they are compared.\<close>

definition bracket_prices ::
  "json \<Rightarrow> string \<Rightarrow> pyfloat \<Rightarrow> bool \<Rightarrow> exn + pyfloat \<times> pyfloat" where
  "bracket_prices decision action entry is_test =
     (if is_test then
        (if action = ''open_long'' then Inr (fl_add entry 10, fl_add entry (- 10))
         else Inr (fl_add entry (- 10), fl_add entry 10))
      else
        ex_bind (ex_bind (py_getitem decision ''position_management'')
                   (\<lambda>pm. py_getitem pm ''take_profit_price'')) (\<lambda>tp_raw.
        ex_bind (ex_bind (py_getitem decision ''position_management'')
                   (\<lambda>pm. py_getitem pm ''stop_loss_price'')) (\<lambda>sl_raw.
        ex_bind (py_format_float tp_raw) (\<lambda>_.
        ex_bind (py_format_float sl_raw) (\<lambda>_.
        ex_bind (py_number tp_raw) (\<lambda>tp_price.
        ex_bind (py_number sl_raw) (\<lambda>sl_price.
          Inr (tp_price, sl_price))))))))"

text \<open>The direction check of \<open>execute_trade\<close>, in the rejecting form of the source:
  True when the prices are rejected.\<close>

definition prices_unreasonable :: "string \<Rightarrow> pyfloat \<Rightarrow> pyfloat \<Rightarrow> pyfloat \<Rightarrow> bool" where
  "prices_unreasonable action entry tp_price sl_price =
     (if action = ''open_long'' then fl_le tp_price entry \<or> fl_ge sl_price entry
      else fl_ge tp_price entry \<or> fl_le sl_price entry)"

text \<open>\<open>action.replace('open_', '')\<close> on the two actions that reach it.\<close>

definition side_of_action :: "string \<Rightarrow> string" where
  "side_of_action action = (if action = ''open_long'' then ''long'' else ''short'')"

text \<open>What \<open>execute_trade\<close> does once \<open>_place_order\<close> has succeeded.\<close>

definition after_open ::
  "env \<Rightarrow> json \<Rightarrow> string \<Rightarrow> pyfloat \<Rightarrow> pyfloat \<Rightarrow> bool \<Rightarrow> bool io" where
  "after_open env decision action eth_size current_price is_test =
     io_bind (sleep 5) (\<lambda>_.
     io_bind (get_entry_price_with_retry env 5 2) (\<lambda>resolved.
       let entry = (case resolved of None \<Rightarrow> current_price | Some px \<Rightarrow> px) in
     io_bind (io_lift (bracket_prices decision action entry is_test)) (\<lambda>(tp_price, sl_price).
       if prices_unreasonable action entry tp_price sl_price then io_ret False
       else
     io_bind (place_tp_sl_orders_with_retry env (side_of_action action) eth_size
                tp_price sl_price 5) (\<lambda>tp_sl_success.
       io_ret True))))"

definition execute_trade :: "env \<Rightarrow> json \<Rightarrow> pyfloat \<Rightarrow> bool \<Rightarrow> bool io" where
  "execute_trade env decision current_price is_test =
     io_try
       (io_bind (io_lift (ex_bind (py_getitem decision ''trading_decision'')
                            (\<lambda>td. py_getitem td ''action''))) (\<lambda>action.
        io_bind (io_lift (ex_bind (py_getitem decision ''position_management'')
                            (\<lambda>pm. py_getitem pm ''position_size''))) (\<lambda>raw_size.
        io_bind (io_lift (clamp_position_size raw_size)) (\<lambda>position_size.
          if action = JStr ''hold'' then io_ret True
          else if action = JStr ''open_long'' \<or> action = JStr ''open_short'' then
            (if fl_gt position_size (Fin 0) then
               io_bind (place_order env (case action of JStr a \<Rightarrow> a | _ \<Rightarrow> []) position_size) (\<lambda>success.
                 if success then
                   after_open env decision (case action of JStr a \<Rightarrow> a | _ \<Rightarrow> [])
                     position_size current_price is_test
                 else io_ret success)
             else io_ret True)
          else io_ret False))))
       (\<lambda>e. io_ret False)"

section \<open>ETHTradingBot\<close>

text \<open>\<open>run_dynamic_cycle\<close>; the line that reports the current price formats it with
  \<open>:.2f\<close>.\<close>

definition run_dynamic_cycle :: "env \<Rightarrow> int io" where
  "run_dynamic_cycle env =
     io_try
       (io_bind (has_pending_orders_or_tpsl env) (\<lambda>has_pending.
          if has_pending then io_ret CHECK_PENDING_ORDERS_INTERVAL
          else
        io_bind (get_kline_data env) (\<lambda>klines.
        io_bind (io_lift (if py_truthy klines
                          then ex_bind (py_index0 klines) (\<lambda>k. py_getitem k ''close'')
                          else Inr (JNum 0))) (\<lambda>current_price.
        io_bind (io_lift (ex_bind (py_format_float current_price)
                            (\<lambda>_. py_number current_price))) (\<lambda>price.
        io_bind (get_account_balance env) (\<lambda>account.
        io_bind (get_position_info env) (\<lambda>position.
        io_bind (get_trading_decision env current_price klines account position) (\<lambda>ai_decision.
        io_bind (if py_truthy ai_decision
                 then io_bind (execute_trade env ai_decision price False) (\<lambda>success. io_ret ())
                 else io_ret ()) (\<lambda>_.
          io_ret AI_FREQUENCY)))))))))
       (\<lambda>e. io_ret AI_FREQUENCY)"

section \<open>The parser of OKX_AI_ETHv1.py\<close>

text \<open>
  The first version of the program parses the reply differently: after the whole text and
  the matches of a nested-object pattern it tries the text between the first opening and
  the last closing brace, and then gives up. Its validator admits two more actions.
\<close>

text \<open>\<open>_validate_decision_format\<close> of v1.\<close>

definition valid_actions_v1 :: "string list" where
  "valid_actions_v1 = [''hold'', ''open_long'', ''open_short'', ''close_long'', ''close_short'']"

definition validate_body_v1 :: "json \<Rightarrow> exn + bool" where
  "validate_body_v1 decision =
     ex_bind (py_contains ''trading_decision'' decision) (\<lambda>has_td.
     ex_bind (if has_td then py_contains ''position_management'' decision else Inr False) (\<lambda>has_pm.
       if \<not> has_td \<or> \<not> has_pm then Inr False
       else
     ex_bind (py_getitem decision ''trading_decision'') (\<lambda>td.
     ex_bind (py_getitem decision ''position_management'') (\<lambda>pm.
     ex_bind (py_all_in [''action'', ''confidence_level'', ''reason''] td) (\<lambda>td_ok.
       if \<not> td_ok then Inr False
       else
     ex_bind (py_all_in [''position_size'', ''stop_loss_price'', ''take_profit_price''] pm) (\<lambda>pm_ok.
       if \<not> pm_ok then Inr False
       else
     ex_bind (py_getitem td ''action'') (\<lambda>a.
       if a \<notin> set (map JStr valid_actions_v1) then Inr False
       else
     ex_bind (py_getitem td ''confidence_level'') (\<lambda>c.
       if c \<notin> set (map JStr valid_confidences) then Inr False
       else Inr True))))))))"

definition validate_decision_format_v1 :: "json \<Rightarrow> bool" where
  "validate_decision_format_v1 decision =
     (case validate_body_v1 decision of Inl e \<Rightarrow> False | Inr b \<Rightarrow> b)"

text \<open>\<open>str.find\<close> and \<open>str.rfind\<close> of a character (the index of the first or
  last occurrence, or -1), and the slice \<open>s[start:stop]\<close> for indices that are not
  negative.\<close>

fun find_from :: "nat \<Rightarrow> char \<Rightarrow> string \<Rightarrow> int" where
  "find_from i c [] = - 1"
| "find_from i c (x # xs) = (if x = c then int i else find_from (Suc i) c xs)"

fun rfind_from :: "nat \<Rightarrow> int \<Rightarrow> char \<Rightarrow> string \<Rightarrow> int" where
  "rfind_from i found c [] = found"
| "rfind_from i found c (x # xs) = rfind_from (Suc i) (if x = c then int i else found) c xs"

definition py_find :: "string \<Rightarrow> char \<Rightarrow> int" where
  "py_find s c = find_from 0 c s"

definition py_rfind :: "string \<Rightarrow> char \<Rightarrow> int" where
  "py_rfind s c = rfind_from 0 (- 1) c s"

definition py_slice :: "string \<Rightarrow> int \<Rightarrow> int \<Rightarrow> string" where
  "py_slice s start stop = take (nat stop - nat start) (drop (nat start) s)"

text \<open>The text from the first opening to the last closing brace, under the guard of
  the source (\<open>None\<close> when the guard fails).\<close>

definition brace_substring :: "string \<Rightarrow> string option" where
  "brace_substring response =
     (let start_idx = py_find response CHR ''{'';
          end_idx = py_rfind response CHR ''}'' + 1
      in if start_idx \<noteq> - 1 \<and> end_idx \<noteq> - 1 then Some (py_slice response start_idx end_idx)
         else None)"

definition parse_whole_v1 :: "env \<Rightarrow> string \<Rightarrow> json option" where
  "parse_whole_v1 env response =
     (case json_loads env response of
        Inl e \<Rightarrow> None
      | Inr decision \<Rightarrow> if validate_decision_format_v1 decision then Some decision else None)"

fun try_matches_v1 :: "env \<Rightarrow> string list \<Rightarrow> json option" where
  "try_matches_v1 env [] = None"
| "try_matches_v1 env (m # ms) =
     (case json_loads env m of
        Inl e \<Rightarrow> try_matches_v1 env ms
      | Inr decision \<Rightarrow>
          if validate_decision_format_v1 decision then Some decision
          else try_matches_v1 env ms)"

definition parse_braces_v1 :: "env \<Rightarrow> string \<Rightarrow> json option" where
  "parse_braces_v1 env response =
     (case brace_substring response of
        None \<Rightarrow> None
      | Some json_str \<Rightarrow> parse_whole_v1 env json_str)"

text \<open>\<open>_parse_ai_response\<close> of v1: when all three steps fail it raises, and its own
  handler returns the safe default.\<close>

definition parse_ai_response_v1 :: "env \<Rightarrow> string \<Rightarrow> exn + json" where
  "parse_ai_response_v1 env response =
     ex_try
       (case parse_whole_v1 env response of
          Some decision \<Rightarrow> Inr decision
        | None \<Rightarrow>
            ex_bind (re_finditer_nested env response) (\<lambda>matches.
              case try_matches_v1 env matches of
                Some decision \<Rightarrow> Inr decision
              | None \<Rightarrow>
                  (case parse_braces_v1 env response of
                     Some decision \<Rightarrow> Inr decision
                   | None \<Rightarrow> Inl OtherError)))
       (\<lambda>e. Inr default_hold_decision)"

section \<open>Observations on traces and the specification's predicates\<close>

text \<open>The three queries of the exposure check, as trace events.\<close>

definition ev_pending_orders :: event where
  "ev_pending_orders =
     Request ''GET'' ''/api/v5/trade/orders-pending'' (JObj [(''instId'', JStr SYMBOL)])"

definition ev_algo_orders :: event where
  "ev_algo_orders = Request ''GET'' ''/api/v5/trade/orders-algo-pending''
     (JObj [(''instType'', JStr ''SWAP''), (''ordType'', JStr ''conditional''), (''instId'', JStr SYMBOL)])"

text \<open>An identifier is present among the listed orders; and a trace ends in a
  successful verification: the identifiers were recorded, the settle delay passed, the
  pending conditional orders were fetched and the exchange listed both identifiers.\<close>

definition id_present :: "json \<Rightarrow> json \<Rightarrow> bool" where
  "id_present algo_id orders =
     (case py_iter orders of
        Inl e \<Rightarrow> False
      | Inr os \<Rightarrow> (\<exists>order\<in>set os. py_getitem order ''algoId'' = Inr algo_id))"

definition brackets_verified :: "env \<Rightarrow> world \<Rightarrow> bool" where
  "brackets_verified env w =
     (case rev w of
        query # Sleep s # RecordIds tp_id sl_id # before \<Rightarrow>
          query = ev_algo_orders \<and>
          (case exchange env (length (requests_of (rev before))) ''GET''
                  ''/api/v5/trade/orders-algo-pending''
                  (JObj [(''instType'', JStr ''SWAP''), (''ordType'', JStr ''conditional''),
                         (''instId'', JStr SYMBOL)]) of
             Inl e \<Rightarrow> False
           | Inr orders \<Rightarrow> id_present tp_id orders \<and> id_present sl_id orders)
      | _ \<Rightarrow> False)"

text \<open>The number of bracket attempts in a stretch of trace.\<close>

fun is_attempt :: "event \<Rightarrow> bool" where
  "is_attempt (AttemptLine k n) = True"
| "is_attempt (Request m e p) = False"
| "is_attempt (AiRequest p) = False"
| "is_attempt (Sleep s) = False"
| "is_attempt (RecordIds a b) = False"

definition attempts :: "event list \<Rightarrow> nat" where
  "attempts evs = length (filter is_attempt evs)"

definition ev_positions :: event where
  "ev_positions = Request ''GET'' ''/api/v5/account/positions'' (JObj [(''instId'', JStr SYMBOL)])"

text \<open>A stretch of trace that holds nothing but position queries and sleeps: in
  particular no order of any kind.\<close>

fun is_sleep :: "event \<Rightarrow> bool" where
  "is_sleep (Sleep s) = True"
| "is_sleep (Request m e p) = False"
| "is_sleep (AiRequest p) = False"
| "is_sleep (AttemptLine k n) = False"
| "is_sleep (RecordIds a b) = False"

definition only_position_queries :: "event list \<Rightarrow> bool" where
  "only_position_queries evs = (\<forall>ev\<in>set evs. ev = ev_positions \<or> is_sleep ev)"

text \<open>Schema validity as the specification words it: both top-level objects present,
  all required sub-fields present, action and confidence level in their enumerations.\<close>

definition has_fields :: "json \<Rightarrow> string list \<Rightarrow> bool" where
  "has_fields obj names =
     (case obj of JObj kvs \<Rightarrow> (\<forall>f\<in>set names. map_of kvs f \<noteq> None) | _ \<Rightarrow> False)"

definition schema_valid :: "json \<Rightarrow> bool" where
  "schema_valid decision =
     (case decision of
        JObj members \<Rightarrow>
          (case (map_of members ''trading_decision'', map_of members ''position_management'') of
             (Some td, Some pm) \<Rightarrow>
                has_fields td [''action'', ''confidence_level'', ''reason'']
              \<and> has_fields pm [''position_size'', ''stop_loss_price'', ''take_profit_price'']
              \<and> py_getitem td ''action'' \<in> set (map (Inr \<circ> JStr) [''hold'', ''open_long'', ''open_short''])
              \<and> py_getitem td ''confidence_level'' \<in> set (map (Inr \<circ> JStr) [''high'', ''medium'', ''low''])
           | _ \<Rightarrow> False)
      | _ \<Rightarrow> False)"

section \<open>Example environments and inputs\<close>

text \<open>An environment in which every request fails, the decoder rejects every text and
  no pattern matches. The formatting functions are given on the numbers the examples
  use.\<close>

definition env_offline :: env where
  "env_offline =
     \<lparr>json_loads = (\<lambda>s. Inl ValueError),
      re_findall_template = (\<lambda>s. Inr []),
      clean_json_str = (\<lambda>s. Inr s),
      re_search_action = (\<lambda>i s. Inr None),
      re_search_reason = (\<lambda>i s. Inr None),
      re_finditer_nested = (\<lambda>s. Inr []),
      str_lower = (\<lambda>s. s),
      str_strip = (\<lambda>s. s),
      py_float = (\<lambda>v. case v of JNum r \<Rightarrow> Inr (Fin r) | _ \<Rightarrow> Inl ValueError),
      candles_to_klines = (\<lambda>v. Inr v),
      mock_klines = JArr [JObj [(''close'', JNum 3505)]],
      fmt_2f = (\<lambda>x. if x = Fin 0.05 then ''0.05'' else ''0.00''),
      py_str = (\<lambda>x. if x = Fin 3600 then ''3600'' else if x = Fin 3400 then ''3400''
                    else if x = NaN then ''nan'' else ''0''),
      str_exn = (\<lambda>e. ''error''),
      exchange = (\<lambda>n m e p. Inl RequestError),
      deepseek = (\<lambda>n p. Inl RequestError)\<rparr>"

text \<open>A reply whose \<open>position_management\<close> is the list of the field names, the
  value \<open>json.loads\<close> gives for it, and an environment whose decoder knows this
  reply.\<close>

definition reply_list_pm :: string where
  \<open>reply_list_pm = ''{"trading_decision": {"action": "hold", "confidence_level": "low", "reason": "wait"}, "position_management": ["position_size", "stop_loss_price", "take_profit_price"]}''\<close>

definition decision_list_pm :: json where
  "decision_list_pm =
     JObj [(''trading_decision'',
              JObj [(''action'', JStr ''hold''), (''confidence_level'', JStr ''low''),
                    (''reason'', JStr ''wait'')]),
           (''position_management'',
              JArr [JStr ''position_size'', JStr ''stop_loss_price'', JStr ''take_profit_price''])]"

definition env_list_pm :: env where
  "env_list_pm =
     env_offline\<lparr>json_loads := (\<lambda>s. if s = reply_list_pm then Inr decision_list_pm else Inl ValueError)\<rparr>"

text \<open>A reply with a prefix and a third top-level member, its brace-delimited part, the
  value \<open>json.loads\<close> gives for that part, and an environment in which the decoder
  and the first action and reason patterns behave on this reply as Python's do: the reply
  as a whole is not JSON, neither the template pattern nor the nested-object pattern
  matches, and the patterns find \<open>open_long\<close> and \<open>breakout\<close>.\<close>

definition reply_extra_key :: string where
  \<open>reply_extra_key = ''Decision: {"trading_decision": {"action": "open_long", "confidence_level": "high", "reason": "breakout"}, "position_management": {"position_size": 0.005, "stop_loss_price": 3400, "take_profit_price": 3600}, "note": 1}''\<close>

definition json_extra_key :: string where
  \<open>json_extra_key = ''{"trading_decision": {"action": "open_long", "confidence_level": "high", "reason": "breakout"}, "position_management": {"position_size": 0.005, "stop_loss_price": 3400, "take_profit_price": 3600}, "note": 1}''\<close>

definition decision_extra_key :: json where
  "decision_extra_key =
     JObj [(''trading_decision'',
              JObj [(''action'', JStr ''open_long''), (''confidence_level'', JStr ''high''),
                    (''reason'', JStr ''breakout'')]),
           (''position_management'',
              JObj [(''position_size'', JNum 0.005), (''stop_loss_price'', JNum 3400),
                    (''take_profit_price'', JNum 3600)]),
           (''note'', JNum 1)]"

definition env_extra_key :: env where
  "env_extra_key =
     env_offline
       \<lparr>json_loads := (\<lambda>s. if s = json_extra_key then Inr decision_extra_key else Inl ValueError),
        re_search_action := (\<lambda>i s. if i = 0 \<and> s = reply_extra_key then Inr (Some ''open_long'') else Inr None),
        re_search_reason := (\<lambda>i s. if i = 0 \<and> s = reply_extra_key then Inr (Some ''breakout'') else Inr None)\<rparr>"

text \<open>An exchange that reports an open long position of 0.05 at 3500 and answers every
  other request with an empty list.\<close>

definition env_position :: env where
  "env_position =
     env_offline
       \<lparr>exchange := (\<lambda>n m e p.
          if e = ''/api/v5/account/positions''
          then Inr (JArr [JObj [(''pos'', JNum 0.05), (''avgPx'', JNum 3500)]])
          else Inr (JArr []))\<rparr>"

text \<open>An exchange that accepts conditional orders, naming them \<open>tp-1\<close> and
  \<open>sl-1\<close>, and lists both as pending.\<close>

definition env_brackets :: env where
  "env_brackets =
     env_offline
       \<lparr>exchange := (\<lambda>n m e p.
          if e = ''/api/v5/trade/order-algo''
          then (if py_contains ''tpTriggerPx'' p = Inr True
                then Inr (JArr [JObj [(''algoId'', JStr ''tp-1'')]])
                else Inr (JArr [JObj [(''algoId'', JStr ''sl-1'')]]))
          else if e = ''/api/v5/trade/orders-algo-pending''
          then Inr (JArr [JObj [(''algoId'', JStr ''sl-1'')], JObj [(''algoId'', JStr ''tp-1'')]])
          else Inl RequestError)\<rparr>"

text \<open>The decision of the specification's second example: a long position whose target
  lies below and whose stop lies above the entry price of 3500.\<close>

definition decision_inverted :: json where
  "decision_inverted =
     mk_decision ''open_long'' ''high'' ''breakout'' (JNum 0.005) (JNum 3600) (JNum 3400)"

text \<open>The same decision with target and stop the right way round.\<close>

definition decision_bracketed :: json where
  "decision_bracketed =
     mk_decision ''open_long'' ''high'' ''breakout'' (JNum 0.005) (JNum 3400) (JNum 3600)"

text \<open>A long decision whose target is the float NaN, which \<open>json.loads\<close> gives
  for the literal \<open>NaN\<close>, with the stop below the entry price of 3500; a long decision
  whose size is NaN; the replies that decode to them.\<close>

definition decision_nan_target :: json where
  "decision_nan_target =
     mk_decision ''open_long'' ''high'' ''breakout'' (JNum 0.005) (JNum 3400) JNaN"

definition decision_nan_size :: json where
  "decision_nan_size =
     mk_decision ''open_long'' ''high'' ''breakout'' JNaN (JNum 3400) (JNum 3600)"

definition reply_nan_target :: string where
  \<open>reply_nan_target = ''{"trading_decision": {"action": "open_long", "confidence_level": "high", "reason": "breakout"}, "position_management": {"position_size": 0.005, "stop_loss_price": 3400, "take_profit_price": NaN}}''\<close>

definition reply_nan_size :: string where
  \<open>reply_nan_size = ''{"trading_decision": {"action": "open_long", "confidence_level": "high", "reason": "breakout"}, "position_management": {"position_size": NaN, "stop_loss_price": 3400, "take_profit_price": 3600}}''\<close>

text \<open>The payload of a chat completion with the given content.\<close>

definition chat_reply :: "string \<Rightarrow> json" where
  "chat_reply content =
     JObj [(''choices'', JArr [JObj [(''message'', JObj [(''content'', JStr content)])]])]"

text \<open>An exchange without orders that quotes 3490, accepts the market order (the
  seventh request of a cycle) and reports the long position of 0.05 at 3500 from then on,
  and refuses every conditional order; the model endpoint answers with the given reply,
  which the decoder knows.\<close>

definition env_reply :: "string \<Rightarrow> json \<Rightarrow> env" where
  "env_reply reply decision =
     env_offline
       \<lparr>json_loads := (\<lambda>s. if s = reply then Inr decision else Inl ValueError),
        exchange := (\<lambda>n m e p.
          if e = ''/api/v5/account/positions'' \<and> 6 \<le> n
          then Inr (JArr [JObj [(''pos'', JNum 0.05), (''avgPx'', JNum 3500)]])
          else if e = ''/api/v5/market/candles''
          then Inr (JArr [JObj [(''close'', JNum 3490)]])
          else if e = ''/api/v5/trade/order-algo'' then Inl ApiError
          else Inr (JArr [])),
        deepseek := (\<lambda>n p. Inr (chat_reply reply))\<rparr>"

definition env_nan_target :: env where
  "env_nan_target = env_reply reply_nan_target decision_nan_target"

definition env_nan_size :: env where
  "env_nan_size = env_reply reply_nan_size decision_nan_size"

section \<open>Basic facts about the combinators\<close>

lemma ex_bind_Inr [simp]: "ex_bind (Inr x) f = f x"
  by (simp add: ex_bind_def)

lemma ex_bind_Inl [simp]: "ex_bind (Inl e) f = Inl e"
  by (simp add: ex_bind_def)

lemma ex_try_Inr [simp]: "ex_try (Inr x) h = Inr x"
  by (simp add: ex_try_def)

lemma ex_try_Inl [simp]: "ex_try (Inl e) h = h e"
  by (simp add: ex_try_def)

lemma io_bind_ret [simp]: "io_bind (io_ret x) f = f x"
  by (rule ext) (simp add: io_bind_def io_ret_def)

lemma io_bind_raise [simp]: "io_bind (io_raise e) f = io_raise e"
  by (rule ext) (simp add: io_bind_def io_raise_def)

lemma io_lift_Inr [simp]: "io_lift (Inr x) = io_ret x"
  by (rule ext) (simp add: io_lift_def io_ret_def)

lemma io_lift_Inl [simp]: "io_lift (Inl e) = io_raise e"
  by (rule ext) (simp add: io_lift_def io_raise_def)

lemma io_try_ret [simp]: "io_try (io_ret x) h = io_ret x"
  by (rule ext) (simp add: io_try_def io_ret_def)

lemma io_try_raise [simp]: "io_try (io_raise e) h = h e"
  by (rule ext) (simp add: io_try_def io_raise_def)

text \<open>A handler that always returns makes the whole \<open>try\<close> return.\<close>

lemma io_try_total:
  "(\<And>e w. \<exists>x w'. h e w = (Inr x, w')) \<Longrightarrow> \<exists>x w'. io_try m h w = (Inr x, w')"
  by (cases "m w") (auto simp: io_try_def split: sum.splits)

lemma io_bind_InrD:
  "io_bind m f w = (Inr v, w') \<Longrightarrow> \<exists>x w1. m w = (Inr x, w1) \<and> f x w1 = (Inr v, w')"
  by (auto simp: io_bind_def split: prod.splits sum.splits)

lemma fl_lt_not_ge: "fl_lt a b \<Longrightarrow> \<not> fl_le b a"
  by (cases a; cases b) simp_all

lemma fl_le_iff_not_gt: "a \<noteq> NaN \<Longrightarrow> b \<noteq> NaN \<Longrightarrow> fl_le a b = (\<not> fl_lt b a)"
  by (cases a; cases b) auto

lemma fl_lt_NaN_right [simp]: "fl_lt a NaN = False"
  by (cases a) simp_all

lemma fl_le_NaN_right [simp]: "fl_le a NaN = False"
  by (cases a) simp_all

lemma fl_abs_positive: "fl_lt x (Fin 0) \<Longrightarrow> fl_lt (Fin 0) (fl_abs x)"
  by (cases x) simp_all

lemma py_format_float_number: "py_format_float v = Inr u \<Longrightarrow> \<exists>p. py_number v = Inr p"
  by (cases v) simp_all

lemma requests_of_append [simp]: "requests_of (a @ b) = requests_of a @ requests_of b"
  by (simp add: requests_of_def)

lemma requests_of_simps [simp]:
  "requests_of [] = []"
  "requests_of (Request m e p # evs) = Request m e p # requests_of evs"
  "requests_of (Sleep s # evs) = requests_of evs"
  "requests_of (AttemptLine k n # evs) = requests_of evs"
  "requests_of (RecordIds a b # evs) = requests_of evs"
  "requests_of (AiRequest q # evs) = requests_of evs"
  by (simp_all add: requests_of_def)

lemma attempts_simps [simp]:
  "attempts [] = 0"
  "attempts (a @ b) = attempts a + attempts b"
  "attempts (Request m e p # evs) = attempts evs"
  "attempts (Sleep s # evs) = attempts evs"
  "attempts (AttemptLine k n # evs) = Suc (attempts evs)"
  "attempts (RecordIds a' b' # evs) = attempts evs"
  "attempts (AiRequest q # evs) = attempts evs"
  by (simp_all add: attempts_def)

section \<open>The data collector's queries\<close>

lemma get_pending_orders_eq:
  "get_pending_orders env w =
     (Inr (case exchange env (length (requests_of w)) ''GET'' ''/api/v5/trade/orders-pending''
                  (JObj [(''instId'', JStr SYMBOL)]) of Inl e \<Rightarrow> JArr [] | Inr d \<Rightarrow> d),
      w @ [ev_pending_orders])"
  by (simp add: get_pending_orders_def io_try_def make_request_def io_ret_def ev_pending_orders_def
      split: sum.splits)

lemma get_algo_orders_eq:
  "get_algo_orders env w =
     (Inr (case exchange env (length (requests_of w)) ''GET'' ''/api/v5/trade/orders-algo-pending''
                  (JObj [(''instType'', JStr ''SWAP''), (''ordType'', JStr ''conditional''),
                         (''instId'', JStr SYMBOL)]) of Inl e \<Rightarrow> JArr [] | Inr d \<Rightarrow> d),
      w @ [ev_algo_orders])"
  by (simp add: get_algo_orders_def io_try_def make_request_def io_ret_def ev_algo_orders_def
      split: sum.splits)

text \<open>The position query never raises, issues one request and reports a size that is
  zero or positive.\<close>

lemma get_position_info_total:
  "\<exists>p. get_position_info env w = (Inr p, w @ [ev_positions])
     \<and> (position_size p = Fin 0 \<or> fl_gt (position_size p) (Fin 0))"
  unfolding get_position_info_def ev_positions_def
  by (auto simp: io_try_def io_bind_def make_request_def io_ret_def io_lift_def io_raise_def
      flat_position_def fl_abs_positive split: sum.splits prod.splits if_splits)

lemma get_position_info_failed:
  "exchange env (length (requests_of w)) ''GET'' ''/api/v5/account/positions''
     (JObj [(''instId'', JStr SYMBOL)]) = Inl x \<Longrightarrow>
   fst (get_position_info env w) = Inr flat_position"
  by (simp add: get_position_info_def io_try_def io_bind_def make_request_def io_ret_def)

lemma nonempty_data_list [simp]: "nonempty_data (JArr xs) = Inr (xs \<noteq> [])"
  by (simp add: nonempty_data_def)

lemma has_pending_total:
  "\<exists>b w'. has_pending_orders_or_tpsl env w = (Inr b, w')"
  unfolding has_pending_orders_or_tpsl_def by (rule io_try_total) (auto simp: io_ret_def)

text \<open>
  C3. The exposure check never raises. When the two order queries deliver lists, it
  answers True exactly when the pending orders are not empty, or the pending conditional
  orders are not empty, or the position size is not zero, hence False only when all three
  are empty or zero. A source whose query fails counts as empty: when every request
  fails the answer is False. A failure inside the check itself (a reply whose length
  cannot be taken) also gives False.
\<close>

theorem has_pending_orders_or_tpsl_iff:
  "(\<exists>b w'. has_pending_orders_or_tpsl env w = (Inr b, w'))
   \<and> (\<forall>po w1 ao w2 p w3.
        get_pending_orders env w = (Inr (JArr po), w1) \<and>
        get_algo_orders env w1 = (Inr (JArr ao), w2) \<and>
        get_position_info env w2 = (Inr p, w3) \<longrightarrow>
        fst (has_pending_orders_or_tpsl env w)
          = Inr (po \<noteq> [] \<or> ao \<noteq> [] \<or> position_size p \<noteq> Fin 0))
   \<and> ((\<forall>n m e p. isl (exchange env n m e p)) \<longrightarrow>
        fst (has_pending_orders_or_tpsl env w) = Inr False)
   \<and> (\<forall>po w1 e.
        get_pending_orders env w = (Inr po, w1) \<and> nonempty_data po = Inl e \<longrightarrow>
        fst (has_pending_orders_or_tpsl env w) = Inr False)
   \<and> (\<forall>po w1 ao w2 e.
        get_pending_orders env w = (Inr po, w1) \<and> nonempty_data po = Inr False \<and>
        get_algo_orders env w1 = (Inr ao, w2) \<and> nonempty_data ao = Inl e \<longrightarrow>
        fst (has_pending_orders_or_tpsl env w) = Inr False)"
proof (intro conjI allI impI)
  show "\<exists>b w'. has_pending_orders_or_tpsl env w = (Inr b, w')"
    by (rule has_pending_total)
next
  fix po w1 e
  assume "get_pending_orders env w = (Inr po, w1) \<and> nonempty_data po = Inl e"
  then show "fst (has_pending_orders_or_tpsl env w) = Inr False"
    by (auto simp: has_pending_orders_or_tpsl_def io_try_def io_bind_def io_ret_def io_raise_def)
next
  fix po w1 ao w2 e
  assume "get_pending_orders env w = (Inr po, w1) \<and> nonempty_data po = Inr False \<and>
        get_algo_orders env w1 = (Inr ao, w2) \<and> nonempty_data ao = Inl e"
  then show "fst (has_pending_orders_or_tpsl env w) = Inr False"
    by (auto simp: has_pending_orders_or_tpsl_def io_try_def io_bind_def io_ret_def io_raise_def)
next
  fix po w1 ao w2 p w3
  assume a: "get_pending_orders env w = (Inr (JArr po), w1) \<and>
        get_algo_orders env w1 = (Inr (JArr ao), w2) \<and>
        get_position_info env w2 = (Inr p, w3)"
  obtain q where q: "get_position_info env w2 = (Inr q, w2 @ [ev_positions])"
      "position_size q = Fin 0 \<or> fl_gt (position_size q) (Fin 0)"
    using get_position_info_total by blast
  with a have pq: "p = q" by simp
  show "fst (has_pending_orders_or_tpsl env w)
          = Inr (po \<noteq> [] \<or> ao \<noteq> [] \<or> position_size p \<noteq> Fin 0)"
    using a q(2) pq
    by (auto simp: has_pending_orders_or_tpsl_def io_try_def io_bind_def io_ret_def)
next
  assume f: "\<forall>n m e p. isl (exchange env n m e p)"
  have g: "\<exists>x. exchange env n m e p = Inl x" for n m e p
    using f by (simp add: isl_def)
  have 1: "get_pending_orders env v = (Inr (JArr []), v @ [ev_pending_orders])" for v
    using g[of "length (requests_of v)" "''GET''" "''/api/v5/trade/orders-pending''"
            "JObj [(''instId'', JStr SYMBOL)]"]
    by (auto simp: get_pending_orders_eq)
  have 2: "get_algo_orders env v = (Inr (JArr []), v @ [ev_algo_orders])" for v
    using g[of "length (requests_of v)" "''GET''" "''/api/v5/trade/orders-algo-pending''"
            "JObj [(''instType'', JStr ''SWAP''), (''ordType'', JStr ''conditional''),
                   (''instId'', JStr SYMBOL)]"]
    by (auto simp: get_algo_orders_eq)
  have 3: "fst (get_position_info env v) = Inr flat_position" for v
    using g[of "length (requests_of v)" "''GET''" "''/api/v5/account/positions''"
            "JObj [(''instId'', JStr SYMBOL)]"]
    by (auto simp: get_position_info_failed)
  show "fst (has_pending_orders_or_tpsl env w) = Inr False"
    using 3[of "(w @ [ev_pending_orders]) @ [ev_algo_orders]"]
    by (auto simp: has_pending_orders_or_tpsl_def io_try_def io_bind_def io_ret_def 1 2
        flat_position_def split: prod.splits sum.splits)
qed

lemma env_position_queries:
  "get_pending_orders env_position [] = (Inr (JArr []), [ev_pending_orders])"
  "get_algo_orders env_position [ev_pending_orders]
     = (Inr (JArr []), [ev_pending_orders, ev_algo_orders])"
  "get_position_info env_position [ev_pending_orders, ev_algo_orders]
     = (Inr \<lparr>position_side = ''long'', position_size = Fin 0.05, entry_price = Fin 3500,
             leverage = LEVERAGE\<rparr>,
        [ev_pending_orders, ev_algo_orders, ev_positions])"
  by (simp_all add: get_pending_orders_eq get_algo_orders_eq get_position_info_def
      ev_pending_orders_def ev_algo_orders_def ev_positions_def env_position_def env_offline_def
      io_try_def io_bind_def io_ret_def make_request_def nonempty_data_def flat_position_def)

theorem has_pending_orders_or_tpsl_iff_witness:
  "fst (has_pending_orders_or_tpsl env_position []) = Inr True
   \<and> fst (has_pending_orders_or_tpsl env_offline []) = Inr False"
proof
  have "fst (has_pending_orders_or_tpsl env_position [])
          = Inr (([]::json list) \<noteq> [] \<or> ([]::json list) \<noteq> [] \<or> Fin 0.05 \<noteq> Fin 0)"
    using has_pending_orders_or_tpsl_iff[where env = env_position and w = "[]",
            THEN conjunct2, THEN conjunct1, rule_format,
            where po = "[]" and ao = "[]" and ?w1.0 = "[ev_pending_orders]"
              and ?w2.0 = "[ev_pending_orders, ev_algo_orders]"
              and p = "\<lparr>position_side = ''long'', position_size = Fin 0.05,
                         entry_price = Fin 3500, leverage = LEVERAGE\<rparr>"
              and ?w3.0 = "[ev_pending_orders, ev_algo_orders, ev_positions]"]
      env_position_queries
    by simp
  then show "fst (has_pending_orders_or_tpsl env_position []) = Inr True" by simp
next
  show "fst (has_pending_orders_or_tpsl env_offline []) = Inr False"
    using has_pending_orders_or_tpsl_iff[where env = env_offline and w = "[]",
            THEN conjunct2, THEN conjunct2, THEN conjunct1]
    by (simp add: env_offline_def)
qed

section \<open>The cycle controller\<close>

text \<open>
  C2. One call of \<open>run_dynamic_cycle\<close> returns an interval and never raises: the short
  interval (30) when the exposure check reports exposure, in which case nothing happens
  after the check, and the long interval (300) otherwise, whatever the remaining steps
  do, failures included.
\<close>

theorem run_dynamic_cycle_interval:
  "\<exists>exposed w1 w'.
      has_pending_orders_or_tpsl env w = (Inr exposed, w1)
    \<and> run_dynamic_cycle env w
        = (Inr (if exposed then CHECK_PENDING_ORDERS_INTERVAL else AI_FREQUENCY), w')
    \<and> (exposed \<longrightarrow> w' = w1)
    \<and> CHECK_PENDING_ORDERS_INTERVAL = 30 \<and> AI_FREQUENCY = 300"
proof -
  obtain exposed w1 where h: "has_pending_orders_or_tpsl env w = (Inr exposed, w1)"
    using has_pending_total by blast
  show ?thesis
  proof (cases exposed)
    case True
    then have "run_dynamic_cycle env w = (Inr CHECK_PENDING_ORDERS_INTERVAL, w1)"
      using h by (simp add: run_dynamic_cycle_def io_try_def io_bind_def io_ret_def)
    with h True show ?thesis
      by (auto simp: CHECK_PENDING_ORDERS_INTERVAL_def AI_FREQUENCY_def)
  next
    case False
    define rest where "rest =
        io_bind (get_kline_data env) (\<lambda>klines.
        io_bind (io_lift (if py_truthy klines
                          then ex_bind (py_index0 klines) (\<lambda>k. py_getitem k ''close'')
                          else Inr (JNum 0))) (\<lambda>current_price.
        io_bind (io_lift (ex_bind (py_format_float current_price)
                            (\<lambda>_. py_number current_price))) (\<lambda>price.
        io_bind (get_account_balance env) (\<lambda>account.
        io_bind (get_position_info env) (\<lambda>position.
        io_bind (get_trading_decision env current_price klines account position) (\<lambda>ai_decision.
        io_bind (if py_truthy ai_decision
                 then io_bind (execute_trade env ai_decision price False) (\<lambda>success. io_ret ())
                 else io_ret ()) (\<lambda>_.
          io_ret AI_FREQUENCY)))))))"
    have r: "v = AI_FREQUENCY" if "rest w1 = (Inr v, w')" for v w'
      using that unfolding rest_def by (auto dest!: io_bind_InrD simp: io_ret_def)
    have "run_dynamic_cycle env w = io_try rest (\<lambda>e. io_ret AI_FREQUENCY) w1"
      using h False
      by (simp add: run_dynamic_cycle_def rest_def io_try_def io_bind_def io_ret_def)
    moreover have "\<exists>w'. io_try rest (\<lambda>e. io_ret AI_FREQUENCY) w1 = (Inr AI_FREQUENCY, w')"
      using r by (cases "rest w1") (auto simp: io_try_def io_ret_def split: sum.splits)
    ultimately show ?thesis
      using h False by (auto simp: CHECK_PENDING_ORDERS_INTERVAL_def AI_FREQUENCY_def)
  qed
qed

lemma exposure_examples:
  "fst (has_pending_orders_or_tpsl env_offline []) = Inr False"
  "fst (has_pending_orders_or_tpsl env_position []) = Inr True"
  by (simp_all add: has_pending_orders_or_tpsl_def get_pending_orders_eq get_algo_orders_eq
      get_position_info_def env_position_def env_offline_def io_try_def io_bind_def io_ret_def
      make_request_def nonempty_data_def flat_position_def)

theorem run_dynamic_cycle_interval_witness:
  "fst (run_dynamic_cycle env_offline []) = Inr 300
   \<and> fst (run_dynamic_cycle env_position []) = Inr 30"
  using run_dynamic_cycle_interval[of env_offline "[]"]
        run_dynamic_cycle_interval[of env_position "[]"] exposure_examples
  by auto

section \<open>Bracket placement\<close>

lemma any_algo_id_True:
  "any_algo_id a os = Inr True \<Longrightarrow> \<exists>order\<in>set os. py_getitem order ''algoId'' = Inr a"
  by (induction os) (auto simp: ex_bind_def split: sum.splits if_splits)

lemma verify_total:
  "\<exists>b. verify_tp_sl_orders_exist env ids w = (Inr b, w @ [ev_algo_orders])"
  by (auto simp: verify_tp_sl_orders_exist_def get_algo_orders_eq io_try_def io_bind_def
      io_ret_def io_lift_def split: sum.splits prod.splits)

lemma verify_True_aux:
  assumes "verify_tp_sl_orders_exist env ids w = (Inr True, w')"
  shows "\<exists>orders os.
            exchange env (length (requests_of w)) ''GET'' ''/api/v5/trade/orders-algo-pending''
              (JObj [(''instType'', JStr ''SWAP''), (''ordType'', JStr ''conditional''),
                     (''instId'', JStr SYMBOL)]) = Inr orders
          \<and> py_iter orders = Inr os
          \<and> any_algo_id (tp_algo_id ids) os = Inr True
          \<and> any_algo_id (sl_algo_id ids) os = Inr True"
  using assms
  by (auto simp: verify_tp_sl_orders_exist_def get_algo_orders_eq io_try_def io_bind_def
      io_ret_def io_lift_def ex_bind_def split: sum.splits prod.splits)

text \<open>A successful verification means that the exchange listed both identifiers.\<close>

lemma verify_True:
  assumes "verify_tp_sl_orders_exist env ids w = (Inr True, w')"
  shows "\<exists>orders.
            exchange env (length (requests_of w)) ''GET'' ''/api/v5/trade/orders-algo-pending''
              (JObj [(''instType'', JStr ''SWAP''), (''ordType'', JStr ''conditional''),
                     (''instId'', JStr SYMBOL)]) = Inr orders
          \<and> id_present (tp_algo_id ids) orders \<and> id_present (sl_algo_id ids) orders"
proof -
  from verify_True_aux[OF assms] obtain orders os where
    o: "exchange env (length (requests_of w)) ''GET'' ''/api/v5/trade/orders-algo-pending''
          (JObj [(''instType'', JStr ''SWAP''), (''ordType'', JStr ''conditional''),
                 (''instId'', JStr SYMBOL)]) = Inr orders"
    and i: "py_iter orders = Inr os"
    and t: "any_algo_id (tp_algo_id ids) os = Inr True"
    and s: "any_algo_id (sl_algo_id ids) os = Inr True"
    by blast
  have "id_present (tp_algo_id ids) orders" "id_present (sl_algo_id ids) orders"
    using i any_algo_id_True[OF t] any_algo_id_True[OF s] by (simp_all add: id_present_def)
  with o show ?thesis by blast
qed

lemma place_tp_sl_order_events:
  "\<exists>r evs. place_tp_sl_order env ps es tp sl w = (r, w @ evs) \<and> attempts evs = 0"
  by (auto simp: place_tp_sl_order_def io_try_def io_bind_def io_ret_def io_raise_def io_lift_def
      make_request_def split: sum.splits prod.splits)

text \<open>One round of the retry loop writes one attempt line, never raises, and either falls
  through or returns True with both identifiers verified.\<close>

lemma tp_sl_attempt_outcome:
  "\<exists>r evs. tp_sl_attempt env ps es tp sl mx k w = (Inr r, w @ evs) \<and> attempts evs = 1
      \<and> (r = None \<or> (r = Some True \<and> brackets_verified env (w @ evs)))"
proof -
  let ?w0 = "w @ [AttemptLine (k + 1) mx]"
  obtain r1 evs1 where p: "place_tp_sl_order env ps es tp sl ?w0 = (r1, ?w0 @ evs1)"
    and a1: "attempts evs1 = 0"
    using place_tp_sl_order_events by blast
  show ?thesis
  proof (cases r1)
    case (Inl e)
    then show ?thesis using p a1
      by (auto simp: tp_sl_attempt_def io_try_def io_bind_def io_ret_def emit_def sleep_def)
  next
    case (Inr ids)
    let ?w1 = "?w0 @ evs1 @ [RecordIds (tp_algo_id ids) (sl_algo_id ids), Sleep 5]"
    obtain b where v: "verify_tp_sl_orders_exist env ids ?w1 = (Inr b, ?w1 @ [ev_algo_orders])"
      using verify_total by blast
    show ?thesis
    proof (cases b)
      case False
      then show ?thesis using p a1 Inr v
        by (auto simp: tp_sl_attempt_def io_try_def io_bind_def io_ret_def emit_def sleep_def
            ev_algo_orders_def)
    next
      case True
      from v True have v': "verify_tp_sl_orders_exist env ids ?w1 = (Inr True, ?w1 @ [ev_algo_orders])"
        by simp
      from verify_True[OF v'] obtain orders where
        o: "exchange env (length (requests_of ?w1)) ''GET'' ''/api/v5/trade/orders-algo-pending''
              (JObj [(''instType'', JStr ''SWAP''), (''ordType'', JStr ''conditional''),
                     (''instId'', JStr SYMBOL)]) = Inr orders"
        and pr: "id_present (tp_algo_id ids) orders" "id_present (sl_algo_id ids) orders"
        by blast
      have bv: "brackets_verified env (?w1 @ [ev_algo_orders])"
        using o pr by (simp add: brackets_verified_def ev_algo_orders_def)
      have "tp_sl_attempt env ps es tp sl mx k w = (Inr (Some True), ?w1 @ [ev_algo_orders])"
        using p Inr v True
        by (auto simp: tp_sl_attempt_def io_try_def io_bind_def io_ret_def emit_def sleep_def)
      moreover have "attempts ([AttemptLine (k + 1) mx] @ evs1
                       @ [RecordIds (tp_algo_id ids) (sl_algo_id ids), Sleep 5]
                       @ [ev_algo_orders]) = 1"
        using a1 by (simp add: ev_algo_orders_def)
      ultimately show ?thesis using bv
        by (intro exI[of _ "Some True"]
                  exI[of _ "[AttemptLine (k + 1) mx] @ evs1
                              @ [RecordIds (tp_algo_id ids) (sl_algo_id ids), Sleep 5]
                              @ [ev_algo_orders]"]) simp
    qed
  qed
qed

text \<open>The loop: by induction on the number of rounds left.\<close>

lemma retry_loop:
  "\<exists>r evs. for_range i n (tp_sl_attempt env ps es tp sl mx) w = (Inr r, w @ evs)
      \<and> ((r = None \<and> attempts evs = n)
         \<or> (r = Some True \<and> 1 \<le> attempts evs \<and> attempts evs \<le> n
              \<and> brackets_verified env (w @ evs)))"
proof (induction n arbitrary: i w)
  case 0
  show ?case by (simp add: io_ret_def)
next
  case (Suc n)
  obtain r1 evs1 where s: "tp_sl_attempt env ps es tp sl mx i w = (Inr r1, w @ evs1)"
      "attempts evs1 = 1"
      "r1 = None \<or> (r1 = Some True \<and> brackets_verified env (w @ evs1))"
    using tp_sl_attempt_outcome by blast
  show ?case
  proof (cases r1)
    case None
    obtain r evs where l:
      "for_range (Suc i) n (tp_sl_attempt env ps es tp sl mx) (w @ evs1) = (Inr r, (w @ evs1) @ evs)"
      "(r = None \<and> attempts evs = n)
         \<or> (r = Some True \<and> 1 \<le> attempts evs \<and> attempts evs \<le> n
              \<and> brackets_verified env ((w @ evs1) @ evs))"
      using Suc.IH by blast
    show ?thesis
      using s None l
      by (intro exI[of _ r] exI[of _ "evs1 @ evs"]) (auto simp: io_bind_def)
  next
    case (Some b)
    then show ?thesis using s
      by (intro exI[of _ "Some True"] exI[of _ evs1]) (auto simp: io_bind_def io_ret_def)
  qed
qed

text \<open>
  C4. Called for a long or short position of positive size, the bracket routine never
  raises and has exactly two outcomes. It returns True only after a round in which both
  recorded identifiers were found among the pending conditional orders the exchange
  listed, after at least one and at most \<open>max_retries\<close> attempts. Otherwise it returns
  False after exactly \<open>max_retries\<close> attempts. The loop is bounded by \<open>max_retries\<close>
  (5 where the program calls it).
\<close>

theorem place_tp_sl_orders_with_retry_outcomes:
  assumes "pos_side = ''long'' \<or> pos_side = ''short''" and "fl_gt eth_size (Fin 0)"
  shows "\<exists>b evs. place_tp_sl_orders_with_retry env pos_side eth_size tp_price sl_price max_retries w
                   = (Inr b, w @ evs)
           \<and> (if b then 1 \<le> attempts evs \<and> attempts evs \<le> nat max_retries
                         \<and> brackets_verified env (w @ evs)
               else attempts evs = nat max_retries)"
proof -
  obtain r evs where l:
    "for_range 0 (nat max_retries)
       (tp_sl_attempt env pos_side eth_size tp_price sl_price max_retries) w = (Inr r, w @ evs)"
    "(r = None \<and> attempts evs = nat max_retries)
       \<or> (r = Some True \<and> 1 \<le> attempts evs \<and> attempts evs \<le> nat max_retries
            \<and> brackets_verified env (w @ evs))"
    using retry_loop by blast
  have nf: "\<not> (pos_side = ''flat'' \<or> fl_le eth_size (Fin 0))"
    using assms fl_lt_not_ge by auto
  show ?thesis
    using l nf
    by (intro exI[of _ "r = Some True"] exI[of _ evs])
       (auto simp: place_tp_sl_orders_with_retry_def io_bind_def io_ret_def)
qed

lemma bracket_examples:
  "fst (place_tp_sl_orders_with_retry env_brackets ''long'' (Fin 0.005) (Fin 3600) (Fin 3400) 5 []) = Inr True"
  "fst (place_tp_sl_orders_with_retry env_offline ''short'' (Fin 0.005) (Fin 3400) (Fin 3600) 5 []) = Inr False"
  by (simp_all add: place_tp_sl_orders_with_retry_def eval_nat_numeral tp_sl_attempt_def
     io_bind_def io_try_def io_ret_def io_raise_def io_lift_def emit_def sleep_def
     place_tp_sl_order_def convert_eth_to_contracts_def CONTRACT_VALUE_def MIN_CONTRACT_SIZE_def
     make_request_def env_brackets_def env_offline_def algo_params_def
     verify_tp_sl_orders_exist_def get_algo_orders_def)

theorem place_tp_sl_orders_with_retry_outcomes_witness:
  "(\<exists>evs. place_tp_sl_orders_with_retry env_brackets ''long'' (Fin 0.005) (Fin 3600) (Fin 3400) 5 [] = (Inr True, evs)
       \<and> 1 \<le> attempts evs \<and> attempts evs \<le> 5 \<and> brackets_verified env_brackets evs)
   \<and> (\<exists>evs. place_tp_sl_orders_with_retry env_offline ''short'' (Fin 0.005) (Fin 3400) (Fin 3600) 5 [] = (Inr False, evs)
       \<and> attempts evs = 5)"
proof
  show "\<exists>evs. place_tp_sl_orders_with_retry env_brackets ''long'' (Fin 0.005) (Fin 3600) (Fin 3400) 5 [] = (Inr True, evs)
       \<and> 1 \<le> attempts evs \<and> attempts evs \<le> 5 \<and> brackets_verified env_brackets evs"
    using place_tp_sl_orders_with_retry_outcomes
            [where pos_side = "''long''" and eth_size = "Fin 0.005" and env = env_brackets
               and tp_price = "Fin 3600" and sl_price = "Fin 3400" and max_retries = 5
               and w = "[]"]
          bracket_examples(1)
    by auto
next
  show "\<exists>evs. place_tp_sl_orders_with_retry env_offline ''short'' (Fin 0.005) (Fin 3400) (Fin 3600) 5 [] = (Inr False, evs)
       \<and> attempts evs = 5"
    using place_tp_sl_orders_with_retry_outcomes
            [where pos_side = "''short''" and eth_size = "Fin 0.005" and env = env_offline
               and tp_price = "Fin 3400" and sl_price = "Fin 3600" and max_retries = 5
               and w = "[]"]
          bracket_examples(2)
    by auto
qed

text \<open>
  C10. Called for a flat position or a size that is not positive, the bracket routine
  returns True at once: the trace is unchanged, so no conditional order was submitted and
  nothing was verified.
\<close>

theorem place_tp_sl_orders_with_retry_flat:
  "pos_side = ''flat'' \<or> fl_le eth_size (Fin 0) \<Longrightarrow>
   place_tp_sl_orders_with_retry env pos_side eth_size tp_price sl_price max_retries w
     = (Inr True, w)"
  by (auto simp: place_tp_sl_orders_with_retry_def io_ret_def)

theorem place_tp_sl_orders_with_retry_flat_witness:
  "place_tp_sl_orders_with_retry env_brackets ''flat'' (Fin 0.005) (Fin 3600) (Fin 3400) 5 [] = (Inr True, [])
   \<and> place_tp_sl_orders_with_retry env_brackets ''long'' (Fin 0) (Fin 3600) (Fin 3400) 5 [] = (Inr True, [])
   \<and> \<not> brackets_verified env_brackets []"
  using place_tp_sl_orders_with_retry_flat
          [where pos_side = "''flat''" and eth_size = "Fin 0.005" and env = env_brackets
             and tp_price = "Fin 3600" and sl_price = "Fin 3400" and max_retries = 5
             and w = "[]"]
        place_tp_sl_orders_with_retry_flat
          [where pos_side = "''long''" and eth_size = "Fin 0" and env = env_brackets
             and tp_price = "Fin 3600" and sl_price = "Fin 3400" and max_retries = 5
             and w = "[]"]
  by (simp add: brackets_verified_def)

section \<open>Opening a position\<close>

lemma place_order_eq:
  "place_order env action eth_size w =
     (if (action \<noteq> ''open_long'' \<and> action \<noteq> ''open_short'')
          \<or> fl_lt (fl_div eth_size CONTRACT_VALUE) (Fin MIN_CONTRACT_SIZE)
      then (Inr False, w)
      else
        (let params = order_params (if action = ''open_long'' then ''buy'' else ''sell'')
                        (if action = ''open_long'' then ''long'' else ''short'')
                        (fmt_2f env (fl_div eth_size CONTRACT_VALUE)) in
         (Inr (\<not> isl (exchange env (length (requests_of w)) ''POST'' ''/api/v5/trade/order'' params)),
          w @ [Request ''POST'' ''/api/v5/trade/order'' params])))"
  apply (simp add: place_order_def convert_eth_to_contracts_def Let_def)
  apply (auto simp: io_try_def io_bind_def io_ret_def io_raise_def make_request_def
      split: sum.splits)
  done

text \<open>
  C8. The order placer divides the quantity by the contract value 0.1. When the lot
  count is below 0.01 it returns False and the trace is unchanged (nothing was
  submitted). In every case it returns a boolean and never raises, and the trace grows by
  at most one request, the market order carrying the converted lot count; the result is
  True exactly when that one request was made and the exchange accepted it, so a rejection
  gives False whatever the error is.
\<close>

theorem place_order_single_attempt:
  "(fl_lt (fl_div eth_size 0.1) (Fin 0.01) \<longrightarrow>
      place_order env action eth_size w = (Inr False, w))
   \<and> (\<exists>ok evs. place_order env action eth_size w = (Inr ok, w @ evs)
        \<and> (evs = []
            \<or> (\<exists>side posSide.
                  evs = [Request ''POST'' ''/api/v5/trade/order''
                           (order_params side posSide (fmt_2f env (fl_div eth_size 0.1)))]))
        \<and> ok = (evs \<noteq> [] \<and> (\<forall>ev\<in>set evs. case ev of
                     Request m e p \<Rightarrow> \<not> isl (exchange env (length (requests_of w)) m e p)
                   | _ \<Rightarrow> False)))"
proof
  show "fl_lt (fl_div eth_size 0.1) (Fin 0.01) \<longrightarrow>
      place_order env action eth_size w = (Inr False, w)"
    by (simp add: place_order_eq CONTRACT_VALUE_def MIN_CONTRACT_SIZE_def)
next
  let ?params = "order_params (if action = ''open_long'' then ''buy'' else ''sell'')
                        (if action = ''open_long'' then ''long'' else ''short'')
                        (fmt_2f env (fl_div eth_size 0.1))"
  show "\<exists>ok evs. place_order env action eth_size w = (Inr ok, w @ evs)
        \<and> (evs = []
            \<or> (\<exists>side posSide.
                  evs = [Request ''POST'' ''/api/v5/trade/order''
                           (order_params side posSide (fmt_2f env (fl_div eth_size 0.1)))]))
        \<and> ok = (evs \<noteq> [] \<and> (\<forall>ev\<in>set evs. case ev of
                     Request m e p \<Rightarrow> \<not> isl (exchange env (length (requests_of w)) m e p)
                   | _ \<Rightarrow> False))"
  proof (cases "(action \<noteq> ''open_long'' \<and> action \<noteq> ''open_short'')
          \<or> fl_lt (fl_div eth_size CONTRACT_VALUE) (Fin MIN_CONTRACT_SIZE)")
    case True
    then have "place_order env action eth_size w = (Inr False, w @ [])"
      by (simp add: place_order_eq)
    then show ?thesis by (intro exI[of _ False] exI[of _ "[]"]) simp
  next
    case False
    then have "place_order env action eth_size w =
        (Inr (\<not> isl (exchange env (length (requests_of w)) ''POST'' ''/api/v5/trade/order'' ?params)),
         w @ [Request ''POST'' ''/api/v5/trade/order'' ?params])"
      by (simp add: place_order_eq Let_def CONTRACT_VALUE_def)
    then show ?thesis
      by (intro exI[of _ "\<not> isl (exchange env (length (requests_of w)) ''POST'' ''/api/v5/trade/order'' ?params)"]
                exI[of _ "[Request ''POST'' ''/api/v5/trade/order'' ?params]"]) auto
  qed
qed

lemma place_order_examples:
  "place_order env_position ''open_long'' (Fin 0.005) []
     = (Inr True, [Request ''POST'' ''/api/v5/trade/order'' (order_params ''buy'' ''long'' ''0.05'')])"
  "place_order env_offline ''open_short'' (Fin 0.005) []
     = (Inr False, [Request ''POST'' ''/api/v5/trade/order'' (order_params ''sell'' ''short'' ''0.05'')])"
  by (simp_all add: place_order_eq CONTRACT_VALUE_def MIN_CONTRACT_SIZE_def env_position_def
      env_offline_def)

theorem place_order_single_attempt_witness:
  "fl_lt (fl_div (Fin 0.0005) 0.1) (Fin 0.01)
   \<and> place_order env_position ''open_long'' (Fin 0.0005) [] = (Inr False, [])
   \<and> place_order env_position ''open_long'' (Fin 0.005) []
       = (Inr True, [Request ''POST'' ''/api/v5/trade/order'' (order_params ''buy'' ''long'' ''0.05'')])
   \<and> place_order env_offline ''open_short'' (Fin 0.005) []
       = (Inr False, [Request ''POST'' ''/api/v5/trade/order'' (order_params ''sell'' ''short'' ''0.05'')])"
  using place_order_single_attempt
          [where eth_size = "Fin 0.0005" and env = env_position and action = "''open_long''"
             and w = "[]"]
        place_order_examples
  by simp

section \<open>Clamping the size\<close>

lemma clamp_num:
  "py_number raw = Inr p \<Longrightarrow>
   clamp_position_size raw =
     Inr (if fl_lt p (Fin MIN_ORDER_SIZE) then Fin 0
          else if fl_gt p (Fin MAX_ORDER_SIZE) then Fin MAX_ORDER_SIZE else p)"
  by (simp add: clamp_position_size_def)

lemma echo_decision_size:
  "echo_decision d = Inr u \<Longrightarrow>
   \<exists>raw p. ex_bind (py_getitem d ''position_management'') (\<lambda>pm. py_getitem pm ''position_size'')
             = Inr raw \<and> py_number raw = Inr p"
  by (auto simp: echo_decision_def ex_bind_def split: sum.splits dest: py_format_float_number)

text \<open>Whatever the model answers, the decision that \<open>get_trading_decision\<close> hands to
  the executor carries a number as its size.\<close>

lemma get_trading_decision_size:
  assumes "get_trading_decision env cp kl acc pos w = (Inr d, w')"
  shows "\<exists>raw p. ex_bind (py_getitem d ''position_management'') (\<lambda>pm. py_getitem pm ''position_size'')
                   = Inr raw \<and> py_number raw = Inr p"
proof -
  define body where "body =
       io_bind (chat_completion env (build_prompt cp kl acc pos 0)) (\<lambda>result.
        io_bind (io_lift
                  (ex_bind (py_getitem result ''choices'') (\<lambda>choices.
                   ex_bind (py_index0 choices) (\<lambda>choice.
                   ex_bind (py_getitem choice ''message'') (\<lambda>message.
                     py_getitem message ''content''))))) (\<lambda>ai_response.
        io_bind (io_lift (parse_reply env ai_response)) (\<lambda>decision.
        io_bind (io_lift (echo_decision decision)) (\<lambda>_.
          io_ret decision))))"
  have g: "get_trading_decision env cp kl acc pos =
        io_try body (\<lambda>e. io_ret (mk_decision ''hold'' ''low'' (reason_ai_failed_prefix @ str_exn env e)
                       (JNum 0) (JNum 0) (JNum 0)))"
    by (simp add: get_trading_decision_def body_def)
  obtain r w1 where b: "body w = (r, w1)" by (cases "body w")
  show ?thesis
  proof (cases r)
    case (Inl e)
    then have "d = mk_decision ''hold'' ''low'' (reason_ai_failed_prefix @ str_exn env e)
                       (JNum 0) (JNum 0) (JNum 0)"
      using assms b by (simp add: g io_try_def io_ret_def)
    then show ?thesis by (simp add: mk_decision_def)
  next
    case (Inr x)
    then have "body w = (Inr d, w')"
      using assms b by (simp add: g io_try_def)
    then have "\<exists>u. echo_decision d = Inr u"
      unfolding body_def
      by (auto dest!: io_bind_InrD simp: io_ret_def io_lift_def)
    then show ?thesis using echo_decision_size by blast
  qed
qed

lemma after_open_size_irrelevant:
  "after_open env (mk_decision a c r raw sl tp) action q price t
     = after_open env (mk_decision a c r raw' sl tp) action q price t"
  by (simp add: after_open_def bracket_prices_def mk_decision_def Let_def cong: if_cong)

lemma execute_trade_clamped:
  assumes "clamp_position_size raw = clamp_position_size raw'"
  shows "execute_trade env (mk_decision a c r raw sl tp) price t w
           = execute_trade env (mk_decision a c r raw' sl tp) price t w"
proof -
  have k: "after_open env
             (JObj [(''trading_decision'',
                       JObj [(''action'', JStr a), (''confidence_level'', JStr c),
                             (''reason'', JStr r)]),
                    (''position_management'',
                       JObj [(''position_size'', raw), (''stop_loss_price'', sl),
                             (''take_profit_price'', tp)])]) a q price t
         = after_open env
             (JObj [(''trading_decision'',
                       JObj [(''action'', JStr a), (''confidence_level'', JStr c),
                             (''reason'', JStr r)]),
                    (''position_management'',
                       JObj [(''position_size'', raw'), (''stop_loss_price'', sl),
                             (''take_profit_price'', tp)])]) a q price t" for q
    using after_open_size_irrelevant[of env a c r raw sl tp a q price t raw']
    by (simp add: mk_decision_def)
  show ?thesis
    using assms by (simp add: execute_trade_def mk_decision_def k cong: if_cong)
qed

text \<open>A size for which \<open>position_size > 0\<close> is False after the clamp: the executor
  submits nothing and reports True.\<close>

lemma execute_trade_skipped:
  assumes "a \<in> set valid_actions" and "clamp_position_size raw = Inr q"
      and "\<not> fl_gt q (Fin 0)"
  shows "execute_trade env (mk_decision a c r raw sl tp) price is_test w = (Inr True, w)"
  using assms
  by (auto simp: execute_trade_def mk_decision_def valid_actions_def
      io_try_def io_bind_def io_ret_def io_lift_def)

text \<open>On every size that is a number other than NaN (the infinities included) the
  clamping step gives 0 below MIN_ORDER_SIZE, MAX_ORDER_SIZE above MAX_ORDER_SIZE and the
  size itself in between, so the result is 0 or lies in the closed range; a size above
  the maximum is executed exactly as the maximum.\<close>

lemma clamp_position_size_not_nan:
  assumes "py_number raw = Inr p" and "p \<noteq> NaN"
  shows "\<exists>q. clamp_position_size raw = Inr q
         \<and> (fl_lt p (Fin MIN_ORDER_SIZE) \<longrightarrow> q = Fin 0)
         \<and> (fl_gt p (Fin MAX_ORDER_SIZE) \<longrightarrow> q = Fin MAX_ORDER_SIZE)
         \<and> (fl_le (Fin MIN_ORDER_SIZE) p \<and> fl_le p (Fin MAX_ORDER_SIZE) \<longrightarrow> q = p)
         \<and> (q = Fin 0 \<or> (fl_le (Fin MIN_ORDER_SIZE) q \<and> fl_le q (Fin MAX_ORDER_SIZE)))"
  using assms(2)
  by (cases p) (simp_all add: clamp_num[OF assms(1)] MIN_ORDER_SIZE_def MAX_ORDER_SIZE_def)

lemma execute_trade_above_maximum:
  assumes "py_number raw = Inr p" and "fl_gt p (Fin MAX_ORDER_SIZE)"
  shows "execute_trade env (mk_decision a c r raw sl tp) price t w
          = execute_trade env (mk_decision a c r (JNum MAX_ORDER_SIZE) sl tp) price t w"
proof -
  have "\<not> fl_lt p (Fin MIN_ORDER_SIZE)"
    using assms(2) by (cases p) (simp_all add: MIN_ORDER_SIZE_def MAX_ORDER_SIZE_def)
  then have "clamp_position_size raw = clamp_position_size (JNum MAX_ORDER_SIZE)"
    using assms by (simp add: clamp_position_size_def MIN_ORDER_SIZE_def MAX_ORDER_SIZE_def)
  then show ?thesis by (rule execute_trade_clamped)
qed

lemma clamp_examples:
  "clamp_position_size (JNum 0.5) = Inr (Fin MAX_ORDER_SIZE)"
  "clamp_position_size (JNum 0.0005) = Inr (Fin 0)"
  "clamp_position_size (JNum 0.005) = Inr (Fin 0.005)"
  "clamp_position_size JPosInf = Inr (Fin MAX_ORDER_SIZE)"
  "clamp_position_size JNegInf = Inr (Fin 0)"
  by (simp_all add: clamp_position_size_def MIN_ORDER_SIZE_def MAX_ORDER_SIZE_def)

lemma env_reply_fields:
  "exchange (env_reply reply decision) n m e p =
     (if e = ''/api/v5/account/positions'' \<and> 6 \<le> n
      then Inr (JArr [JObj [(''pos'', JNum 0.05), (''avgPx'', JNum 3500)]])
      else if e = ''/api/v5/market/candles''
      then Inr (JArr [JObj [(''close'', JNum 3490)]])
      else if e = ''/api/v5/trade/order-algo'' then Inl ApiError
      else Inr (JArr []))"
  "candles_to_klines (env_reply reply decision) v = Inr v"
  "py_float (env_reply reply decision) (JNum r) = Inr (Fin r)"
  "fmt_2f (env_reply reply decision) x = (if x = Fin 0.05 then ''0.05'' else ''0.00'')"
  "py_str (env_reply reply decision) NaN = ''nan''"
  by (simp_all add: env_reply_def env_offline_def)

text \<open>The reply with the size NaN reaches the executor: the parser returns the decoded
  decision, and \<open>get_trading_decision\<close>, whose telemetry formats NaN as \<open>nan\<close>,
  hands it on. The cycle then submits no order.\<close>

lemma nan_size_validated:
  "validate_decision_format decision_nan_size"
  "echo_decision decision_nan_size = Inr ()"
  by (simp_all add: decision_nan_size_def mk_decision_def validate_decision_format_def
      validate_body_def echo_decision_def valid_actions_def valid_confidences_def FLOAT_LIMIT_def)

lemma parse_ai_response_nan_size:
  "parse_ai_response env_nan_size reply_nan_size = Inr decision_nan_size"
  by (simp add: parse_ai_response_def parse_whole_def env_nan_size_def env_reply_def
      nan_size_validated)

lemma get_trading_decision_nan_size:
  "get_trading_decision env_nan_size cp kl acc pos w
     = (Inr decision_nan_size, w @ [AiRequest (build_prompt cp kl acc pos 0)])"
proof -
  have d: "deepseek env_nan_size n p = Inr (chat_reply reply_nan_size)" for n p
    by (simp add: env_nan_size_def env_reply_def)
  show ?thesis
    by (simp add: get_trading_decision_def chat_completion_def d chat_reply_def parse_reply_def
        parse_ai_response_nan_size nan_size_validated io_try_def io_bind_def io_ret_def
        io_lift_def)
qed

text \<open>A whole cycle on that reply: the interval is 300 and the trace ends with the
  request to the model; no order is submitted.\<close>

lemma run_dynamic_cycle_nan_size:
  "\<exists>prompt. run_dynamic_cycle env_nan_size []
     = (Inr 300,
        [ev_pending_orders, ev_algo_orders, ev_positions,
         Request ''GET'' ''/api/v5/market/candles''
           (JObj [(''instId'', JStr SYMBOL), (''bar'', JStr ''5m''), (''limit'', JNum 4)]),
         Request ''GET'' ''/api/v5/account/balance'' JNull,
         ev_positions, AiRequest prompt])"
proof -
  note f = env_reply_fields[of reply_nan_size decision_nan_size, folded env_nan_size_def]
  have x: "execute_trade env_nan_size decision_nan_size price False w = (Inr True, w)"
    for price w
    by (simp add: execute_trade_def decision_nan_size_def mk_decision_def clamp_position_size_def
        io_try_def io_bind_def io_ret_def io_lift_def)
  have t: "py_truthy decision_nan_size"
    by (simp add: decision_nan_size_def mk_decision_def)
  show ?thesis
    by (simp add: run_dynamic_cycle_def has_pending_orders_or_tpsl_def get_pending_orders_eq
      get_algo_orders_eq get_position_info_def get_kline_data_def get_account_balance_def
      get_trading_decision_nan_size x t f
      io_try_def io_bind_def io_ret_def
      io_raise_def io_lift_def make_request_def nonempty_data_def flat_position_def
      ev_pending_orders_def ev_algo_orders_def ev_positions_def FLOAT_LIMIT_def
      AI_FREQUENCY_def)
qed

text \<open>
  C6. The clamping step does not bring every size to 0 or into the range from
  MIN_ORDER_SIZE (0.001) to MAX_ORDER_SIZE (0.010). A decision with a valid action and
  confidence level, prices that can be formatted and the size NaN passes the validator
  and the telemetry lines of \<open>get_trading_decision\<close>. On NaN both comparisons of the
  clamp are False, so the clamped size is NaN: it is not 0, it is not at or above the
  minimum and it is not at or below the maximum. The decision is not rejected; the
  executor finds \<open>position_size > 0\<close> False, submits nothing and reports True.
\<close>

theorem clamp_position_size_nan:
  assumes "action \<in> set valid_actions" and "conf \<in> set valid_confidences"
      and "py_format_float raw_sl = Inr ()" and "py_format_float raw_tp = Inr ()"
  shows "validate_decision_format (mk_decision action conf reason JNaN raw_sl raw_tp)
       \<and> echo_decision (mk_decision action conf reason JNaN raw_sl raw_tp) = Inr ()
       \<and> clamp_position_size JNaN = Inr NaN
       \<and> NaN \<noteq> Fin 0
       \<and> \<not> fl_le (Fin MIN_ORDER_SIZE) NaN
       \<and> \<not> fl_le NaN (Fin MAX_ORDER_SIZE)
       \<and> execute_trade env (mk_decision action conf reason JNaN raw_sl raw_tp) price is_test w
           = (Inr True, w)"
proof (intro conjI)
  show "validate_decision_format (mk_decision action conf reason JNaN raw_sl raw_tp)"
    using assms(1,2)
    by (simp add: mk_decision_def validate_decision_format_def validate_body_def)
  show "echo_decision (mk_decision action conf reason JNaN raw_sl raw_tp) = Inr ()"
    using assms(3,4) by (simp add: mk_decision_def echo_decision_def)
  show c: "clamp_position_size JNaN = Inr NaN"
    by (simp add: clamp_position_size_def)
  show "execute_trade env (mk_decision action conf reason JNaN raw_sl raw_tp) price is_test w
           = (Inr True, w)"
    using assms(1) c by (rule execute_trade_skipped) simp
qed simp_all

theorem clamp_position_size_nan_witness:
  "validate_decision_format decision_nan_size
   \<and> echo_decision decision_nan_size = Inr ()
   \<and> clamp_position_size JNaN = Inr NaN
   \<and> execute_trade env_nan_size decision_nan_size (Fin 3490) False [] = (Inr True, [])"
proof -
  have f: "py_format_float (JNum 3400) = Inr ()" "py_format_float (JNum 3600) = Inr ()"
    by (simp_all add: FLOAT_LIMIT_def)
  have a: "''open_long'' \<in> set valid_actions" "''high'' \<in> set valid_confidences"
    by (simp_all add: valid_actions_def valid_confidences_def)
  show ?thesis
    using clamp_position_size_nan
            [where action = "''open_long''" and conf = "''high''" and reason = "''breakout''"
               and raw_sl = "JNum 3400" and raw_tp = "JNum 3600" and env = env_nan_size
               and price = "Fin 3490" and is_test = False and w = "[]",
             OF a f]
    by (simp add: decision_nan_size_def)
qed

section \<open>The direction check\<close>

lemma entry_price_round:
  "\<exists>r evs. io_bind
         (io_try
            (io_bind (get_position_info env) (\<lambda>p.
               if fl_gt (position_size p) (Fin 0) \<and> fl_gt (entry_price p) (Fin 0)
               then io_ret (Some (entry_price p))
               else io_ret None))
            (\<lambda>e. io_ret None)) (\<lambda>r.
         case r of
           Some px \<Rightarrow> io_ret (Some px)
         | None \<Rightarrow>
             io_bind (if int attempt < max_retries - 1 then sleep wait_seconds else io_ret ()) (\<lambda>_.
               io_ret None)) w = (Inr r, w @ evs) \<and> only_position_queries evs"
proof -
  obtain p where p: "get_position_info env w = (Inr p, w @ [ev_positions])"
    using get_position_info_total[of env w] by auto
  show ?thesis
    using p
    by (auto simp: io_bind_def io_try_def io_ret_def sleep_def emit_def only_position_queries_def)
qed

lemma for_range_only_position_queries:
  assumes "\<And>i w. \<exists>r evs. body i w = (Inr r, w @ evs) \<and> only_position_queries evs"
  shows "\<exists>r evs. for_range i n body w = (Inr r, w @ evs) \<and> only_position_queries evs"
proof (induction n arbitrary: i w)
  case 0
  show ?case by (simp add: io_ret_def only_position_queries_def)
next
  case (Suc n)
  obtain r1 evs1 where b: "body i w = (Inr r1, w @ evs1)" "only_position_queries evs1"
    using assms by blast
  show ?case
  proof (cases r1)
    case None
    obtain r evs where l: "for_range (Suc i) n body (w @ evs1) = (Inr r, (w @ evs1) @ evs)"
        "only_position_queries evs"
      using Suc.IH by blast
    show ?thesis using b None l
      by (intro exI[of _ r] exI[of _ "evs1 @ evs"])
         (auto simp: io_bind_def only_position_queries_def)
  next
    case (Some v)
    then show ?thesis using b
      by (intro exI[of _ "Some v"] exI[of _ evs1]) (auto simp: io_bind_def io_ret_def)
  qed
qed

text \<open>Resolving the entry price never raises and only queries the position and sleeps.\<close>

lemma get_entry_price_total:
  "\<exists>r evs. get_entry_price_with_retry env max_retries wait_seconds w = (Inr r, w @ evs)
     \<and> only_position_queries evs"
  unfolding get_entry_price_with_retry_def
  by (rule for_range_only_position_queries) (rule entry_price_round)

lemma bracket_prices_ai:
  "py_format_float raw_tp = Inr () \<Longrightarrow> py_format_float raw_sl = Inr () \<Longrightarrow>
   py_number raw_tp = Inr tp \<Longrightarrow> py_number raw_sl = Inr sl \<Longrightarrow>
   bracket_prices (mk_decision action conf reason raw_size raw_sl raw_tp) action' entry False
     = Inr (tp, sl)"
  by (simp add: bracket_prices_def mk_decision_def)

lemma execute_trade_open:
  assumes "action = ''open_long'' \<or> action = ''open_short''"
      and "clamp_position_size raw_size = Inr q" and "fl_gt q (Fin 0)"
      and "place_order env action q w = (Inr True, w1)"
  shows "execute_trade env (mk_decision action conf reason raw_size raw_sl raw_tp) current_price
           is_test w
         = io_try (after_open env (mk_decision action conf reason raw_size raw_sl raw_tp) action q
                     current_price is_test) (\<lambda>e. io_ret False) w1"
  using assms
  by (auto simp: execute_trade_def mk_decision_def io_try_def io_bind_def io_ret_def
      split: sum.splits prod.splits)

text \<open>When the decision's prices are missing, are not numbers or cannot be formatted,
  the executor returns False after resolving the entry price, before any bracket
  order.\<close>

lemma execute_trade_prices_not_numbers:
  assumes act: "action = ''open_long'' \<or> action = ''open_short''"
      and size: "clamp_position_size raw_size = Inr q" "fl_gt q (Fin 0)"
      and bad: "bracket_prices (mk_decision action conf reason raw_size raw_sl raw_tp) action entry
                  False = Inl e"
      and opened: "place_order env action q w = (Inr True, w1)"
      and resolved: "get_entry_price_with_retry env 5 2 (w1 @ [Sleep 5]) = (Inr resolved, w2)"
      and entry: "entry = (case resolved of None \<Rightarrow> current_price | Some px \<Rightarrow> px)"
  shows "execute_trade env (mk_decision action conf reason raw_size raw_sl raw_tp)
           current_price False w = (Inr False, w2)"
proof -
  let ?d = "mk_decision action conf reason raw_size raw_sl raw_tp"
  have e: "execute_trade env ?d current_price False w =
         io_try (after_open env ?d action q current_price False) (\<lambda>e. io_ret False) w1"
    using execute_trade_open[OF act size opened] .
  show ?thesis
    using e resolved entry bad
    by (auto simp: after_open_def io_try_def io_bind_def io_ret_def io_raise_def sleep_def emit_def
        Let_def io_lift_def)
qed

text \<open>The check as the code makes it. Take an open_long or open_short decision with
  prices that are numbers and whose order has been placed, and let the entry price be the
  resolved fill price, or the current price when none was resolved. When the rejecting
  condition of the source holds, \<open>execute_trade\<close> returns False, and since the opening
  order the trace holds only position queries and sleeps: no bracket order and no closing
  order was submitted. Otherwise the retry routine makes at least one attempt.\<close>

lemma execute_trade_checked:
  assumes act: "action = ''open_long'' \<or> action = ''open_short''"
      and size: "clamp_position_size raw_size = Inr q" "fl_gt q (Fin 0)"
      and fmt: "py_format_float raw_tp = Inr ()" "py_format_float raw_sl = Inr ()"
      and tp: "py_number raw_tp = Inr tp" and sl: "py_number raw_sl = Inr sl"
      and opened: "place_order env action q w = (Inr True, w1)"
      and resolved: "get_entry_price_with_retry env 5 2 (w1 @ [Sleep 5]) = (Inr resolved, w2)"
      and entry: "entry = (case resolved of None \<Rightarrow> current_price | Some px \<Rightarrow> px)"
  shows "if prices_unreasonable action entry tp sl
         then execute_trade env (mk_decision action conf reason raw_size raw_sl raw_tp)
                       current_price False w = (Inr False, w2)
                \<and> (\<exists>evs. w2 = w1 @ evs \<and> only_position_queries evs)
         else \<exists>evs. execute_trade env (mk_decision action conf reason raw_size raw_sl raw_tp)
                       current_price False w = (Inr True, w2 @ evs)
                \<and> 1 \<le> attempts evs"
proof -
  let ?d = "mk_decision action conf reason raw_size raw_sl raw_tp"
  have e: "execute_trade env ?d current_price False w =
         io_try (after_open env ?d action q current_price False) (\<lambda>e. io_ret False) w1"
    using execute_trade_open[OF act size opened] .
  obtain r evs0 where g:
    "get_entry_price_with_retry env 5 2 (w1 @ [Sleep 5]) = (Inr r, (w1 @ [Sleep 5]) @ evs0)"
    "only_position_queries evs0"
    using get_entry_price_total by blast
  with resolved have w2: "w2 = w1 @ (Sleep 5 # evs0)" and r: "r = resolved" by simp_all
  have opq: "only_position_queries (Sleep 5 # evs0)"
    using g(2) by (simp add: only_position_queries_def)
  have bp: "bracket_prices ?d action entry False = Inr (tp, sl)"
    using bracket_prices_ai[OF fmt tp sl] .
  show ?thesis
  proof (cases "prices_unreasonable action entry tp sl")
    case True
    then have "execute_trade env ?d current_price False w = (Inr False, w2)"
      using e resolved entry bp
      by (auto simp: after_open_def io_try_def io_bind_def io_ret_def sleep_def emit_def Let_def
          io_lift_def)
    then show ?thesis using True w2 opq by auto
  next
    case False
    have side: "side_of_action action = ''long'' \<or> side_of_action action = ''short''"
      by (simp add: side_of_action_def)
    have nf: "\<not> (side_of_action action = ''flat'' \<or> fl_le q (Fin 0))"
      using side size(2) fl_lt_not_ge by auto
    obtain r' evs where l:
      "for_range 0 (nat 5) (tp_sl_attempt env (side_of_action action) q tp sl 5) w2
         = (Inr r', w2 @ evs)"
      "(r' = None \<and> attempts evs = nat 5)
         \<or> (r' = Some True \<and> 1 \<le> attempts evs \<and> attempts evs \<le> nat 5
              \<and> brackets_verified env (w2 @ evs))"
      using retry_loop by blast
    have "\<exists>b. place_tp_sl_orders_with_retry env (side_of_action action) q tp sl 5 w2
                 = (Inr b, w2 @ evs)"
      using l nf by (auto simp: place_tp_sl_orders_with_retry_def io_bind_def io_ret_def)
    then have "execute_trade env ?d current_price False w = (Inr True, w2 @ evs)"
      using e resolved entry bp False
      by (auto simp: after_open_def io_try_def io_bind_def io_ret_def sleep_def emit_def Let_def
          io_lift_def)
    moreover have "1 \<le> attempts evs" using l(2) by auto
    ultimately show ?thesis using False by auto
  qed
qed

text \<open>When neither price nor the entry price is NaN, the check passes exactly when the
  take-profit price is above and the stop-loss price below the entry for a long position,
  and the reverse for a short one.\<close>

lemma prices_unreasonable_not_nan:
  assumes "action = ''open_long'' \<or> action = ''open_short''"
      and "tp \<noteq> NaN" and "sl \<noteq> NaN" and "entry \<noteq> NaN"
  shows "(\<not> prices_unreasonable action entry tp sl)
           = ((action = ''open_long'' \<and> fl_gt tp entry \<and> fl_lt sl entry)
              \<or> (action = ''open_short'' \<and> fl_lt tp entry \<and> fl_gt sl entry))"
  using assms by (auto simp: prices_unreasonable_def fl_le_iff_not_gt)

lemma execute_trade_direction_check_not_nan:
  assumes act: "action = ''open_long'' \<or> action = ''open_short''"
      and size: "clamp_position_size raw_size = Inr q" "fl_gt q (Fin 0)"
      and fmt: "py_format_float raw_tp = Inr ()" "py_format_float raw_sl = Inr ()"
      and tp: "py_number raw_tp = Inr tp" and sl: "py_number raw_sl = Inr sl"
      and opened: "place_order env action q w = (Inr True, w1)"
      and resolved: "get_entry_price_with_retry env 5 2 (w1 @ [Sleep 5]) = (Inr resolved, w2)"
      and entry: "entry = (case resolved of None \<Rightarrow> current_price | Some px \<Rightarrow> px)"
      and not_nan: "tp \<noteq> NaN" "sl \<noteq> NaN" "entry \<noteq> NaN"
  shows "if (action = ''open_long'' \<and> fl_gt tp entry \<and> fl_lt sl entry)
            \<or> (action = ''open_short'' \<and> fl_lt tp entry \<and> fl_gt sl entry)
         then \<exists>evs. execute_trade env (mk_decision action conf reason raw_size raw_sl raw_tp)
                       current_price False w = (Inr True, w2 @ evs)
                \<and> 1 \<le> attempts evs
         else execute_trade env (mk_decision action conf reason raw_size raw_sl raw_tp)
                       current_price False w = (Inr False, w2)
                \<and> (\<exists>evs. w2 = w1 @ evs \<and> only_position_queries evs)"
proof -
  have k: "(\<not> prices_unreasonable action entry tp sl)
           = ((action = ''open_long'' \<and> fl_gt tp entry \<and> fl_lt sl entry)
              \<or> (action = ''open_short'' \<and> fl_lt tp entry \<and> fl_gt sl entry))"
    by (rule prices_unreasonable_not_nan[OF act not_nan])
  show ?thesis
    using execute_trade_checked[OF act size fmt tp sl opened resolved entry, of conf reason]
    unfolding k[symmetric]
    by (cases "prices_unreasonable action entry tp sl") simp_all
qed

lemma entry_price_example:
  "get_entry_price_with_retry env_position 5 2
     ([Request ''POST'' ''/api/v5/trade/order'' (order_params ''buy'' ''long'' ''0.05'')] @ [Sleep 5])
   = (Inr (Some (Fin 3500)),
      [Request ''POST'' ''/api/v5/trade/order'' (order_params ''buy'' ''long'' ''0.05''), Sleep 5,
       ev_positions])"
  by (simp add: get_entry_price_with_retry_def eval_nat_numeral get_position_info_def
      nonempty_data_def flat_position_def ev_positions_def env_position_def env_offline_def
      io_bind_def io_try_def io_ret_def io_lift_def make_request_def)

text \<open>The specification's second example: with the target at 3400 and the stop at 3600
  for a long position entered at 3500 the executor returns False and the trace ends with
  the position query; with target and stop the right way round the brackets are
  attempted.\<close>

lemma direction_check_examples:
  "execute_trade env_position decision_inverted (Fin 3490) False []
     = (Inr False,
        [Request ''POST'' ''/api/v5/trade/order'' (order_params ''buy'' ''long'' ''0.05''), Sleep 5,
         ev_positions])"
  "\<exists>evs. execute_trade env_position decision_bracketed (Fin 3490) False []
               = (Inr True,
                  [Request ''POST'' ''/api/v5/trade/order'' (order_params ''buy'' ''long'' ''0.05''),
                   Sleep 5, ev_positions] @ evs)
            \<and> 1 \<le> attempts evs"
proof -
  have c: "clamp_position_size (JNum 0.005) = Inr (Fin 0.005)"
    by (simp add: clamp_position_size_def MIN_ORDER_SIZE_def MAX_ORDER_SIZE_def)
  have f: "py_format_float (JNum 3400) = Inr ()" "py_format_float (JNum 3600) = Inr ()"
    by (simp_all add: FLOAT_LIMIT_def)
  show "execute_trade env_position decision_inverted (Fin 3490) False []
     = (Inr False,
        [Request ''POST'' ''/api/v5/trade/order'' (order_params ''buy'' ''long'' ''0.05''), Sleep 5,
         ev_positions])"
    using execute_trade_direction_check_not_nan
            [where action = "''open_long''" and raw_size = "JNum 0.005" and q = "Fin 0.005"
               and raw_tp = "JNum 3400" and tp = "Fin 3400" and raw_sl = "JNum 3600"
               and sl = "Fin 3600" and env = env_position and w = "[]"
               and resolved = "Some (Fin 3500)" and entry = "Fin 3500"
               and current_price = "Fin 3490" and conf = "''high''" and reason = "''breakout''",
             OF _ c _ f(1) f(2) _ _ place_order_examples(1) entry_price_example]
    by (simp add: decision_inverted_def)
  show "\<exists>evs. execute_trade env_position decision_bracketed (Fin 3490) False []
               = (Inr True,
                  [Request ''POST'' ''/api/v5/trade/order'' (order_params ''buy'' ''long'' ''0.05''),
                   Sleep 5, ev_positions] @ evs)
            \<and> 1 \<le> attempts evs"
    using execute_trade_direction_check_not_nan
            [where action = "''open_long''" and raw_size = "JNum 0.005" and q = "Fin 0.005"
               and raw_tp = "JNum 3600" and tp = "Fin 3600" and raw_sl = "JNum 3400"
               and sl = "Fin 3400" and env = env_position and w = "[]"
               and resolved = "Some (Fin 3500)" and entry = "Fin 3500"
               and current_price = "Fin 3490" and conf = "''high''" and reason = "''breakout''",
             OF _ c _ f(2) f(1) _ _ place_order_examples(1) entry_price_example]
    by (simp add: decision_bracketed_def)
qed

text \<open>The reply with the target NaN reaches the executor: the parser returns the decoded
  decision, and \<open>get_trading_decision\<close>, whose telemetry formats NaN as \<open>nan\<close>,
  hands it on.\<close>

lemma nan_target_validated:
  "validate_decision_format decision_nan_target"
  "echo_decision decision_nan_target = Inr ()"
  by (simp_all add: decision_nan_target_def mk_decision_def validate_decision_format_def
      validate_body_def echo_decision_def valid_actions_def valid_confidences_def FLOAT_LIMIT_def)

lemma parse_ai_response_nan_target:
  "parse_ai_response env_nan_target reply_nan_target = Inr decision_nan_target"
  by (simp add: parse_ai_response_def parse_whole_def env_nan_target_def env_reply_def
      nan_target_validated)

lemma get_trading_decision_nan_target:
  "get_trading_decision env_nan_target cp kl acc pos w
     = (Inr decision_nan_target, w @ [AiRequest (build_prompt cp kl acc pos 0)])"
proof -
  have d: "deepseek env_nan_target n p = Inr (chat_reply reply_nan_target)" for n p
    by (simp add: env_nan_target_def env_reply_def)
  show ?thesis
    by (simp add: get_trading_decision_def chat_completion_def d chat_reply_def parse_reply_def
        parse_ai_response_nan_target nan_target_validated io_try_def io_bind_def io_ret_def
        io_lift_def)
qed

text \<open>A whole cycle on that reply: the market order is placed, the entry price 3500
  is resolved, and each of the five rounds of the bracket routine submits a take-profit
  order whose trigger price is \<open>nan\<close>.\<close>

lemma run_dynamic_cycle_nan_target:
  "\<exists>evs. run_dynamic_cycle env_nan_target [] = (Inr 300, evs)
     \<and> Request ''POST'' ''/api/v5/trade/order-algo''
          (algo_params ''sell'' ''0.05'' ''tpTriggerPx'' ''nan'' ''tpOrdPx'' ''long'') \<in> set evs
     \<and> attempts evs = 5"
proof -
  note f = env_reply_fields[of reply_nan_target decision_nan_target, folded env_nan_target_def]
  have t: "py_truthy decision_nan_target"
    by (simp add: decision_nan_target_def mk_decision_def)
  have d: "ex_bind (py_getitem decision_nan_target ''trading_decision'')
             (\<lambda>td. py_getitem td ''action'') = Inr (JStr ''open_long'')"
     "ex_bind (py_getitem decision_nan_target ''position_management'')
             (\<lambda>pm. py_getitem pm ''position_size'') = Inr (JNum 0.005)"
     "ex_bind (py_getitem decision_nan_target ''position_management'')
             (\<lambda>pm. py_getitem pm ''take_profit_price'') = Inr JNaN"
     "ex_bind (py_getitem decision_nan_target ''position_management'')
             (\<lambda>pm. py_getitem pm ''stop_loss_price'') = Inr (JNum 3400)"
    by (simp_all add: decision_nan_target_def mk_decision_def)
  show ?thesis
    by (simp add: run_dynamic_cycle_def has_pending_orders_or_tpsl_def get_pending_orders_eq
      get_algo_orders_eq get_kline_data_def get_account_balance_def
      get_trading_decision_nan_target t d execute_trade_def
      clamp_position_size_def MIN_ORDER_SIZE_def MAX_ORDER_SIZE_def
      place_order_eq CONTRACT_VALUE_def MIN_CONTRACT_SIZE_def after_open_def
      get_entry_price_with_retry_def eval_nat_numeral bracket_prices_def prices_unreasonable_def
      side_of_action_def place_tp_sl_orders_with_retry_def tp_sl_attempt_def
      place_tp_sl_order_def convert_eth_to_contracts_def
      get_position_info_def sleep_def emit_def Let_def f
      io_try_def io_bind_def io_ret_def
      io_raise_def io_lift_def make_request_def nonempty_data_def flat_position_def
      ev_pending_orders_def ev_algo_orders_def FLOAT_LIMIT_def AI_FREQUENCY_def)
qed

text \<open>
  C5. The direction check does not stop every decision whose take-profit price is not on
  the right side of the entry price. Take an open_long or open_short decision whose order
  has been placed, with the take-profit price NaN and a stop-loss price on the right side
  of the entry price (below it for a long position, above it for a short one), the entry
  price being the resolved fill price, or the current price when none was resolved. NaN
  passes the telemetry line, and it is neither above nor below the entry price; yet both
  comparisons of the rejecting condition are False, \<open>execute_trade\<close> goes on to the
  bracket routine, which makes at least one attempt, and returns True.
\<close>

theorem execute_trade_direction_check_nan:
  assumes act: "action = ''open_long'' \<or> action = ''open_short''"
      and size: "clamp_position_size raw_size = Inr q" "fl_gt q (Fin 0)"
      and fmt: "py_format_float raw_sl = Inr ()"
      and sl: "py_number raw_sl = Inr sl"
      and sl_side: "if action = ''open_long'' then fl_lt sl entry else fl_gt sl entry"
      and opened: "place_order env action q w = (Inr True, w1)"
      and resolved: "get_entry_price_with_retry env 5 2 (w1 @ [Sleep 5]) = (Inr resolved, w2)"
      and entry: "entry = (case resolved of None \<Rightarrow> current_price | Some px \<Rightarrow> px)"
  shows "py_format_float JNaN = Inr () \<and> py_number JNaN = Inr NaN
       \<and> \<not> fl_gt NaN entry \<and> \<not> fl_lt NaN entry
       \<and> (\<exists>evs. execute_trade env (mk_decision action conf reason raw_size raw_sl JNaN)
                    current_price False w = (Inr True, w2 @ evs)
              \<and> 1 \<le> attempts evs)"
proof -
  have ok: "\<not> prices_unreasonable action entry NaN sl"
    using act sl_side fl_lt_not_ge[of sl entry] fl_lt_not_ge[of entry sl]
    by (auto simp: prices_unreasonable_def)
  have "\<exists>evs. execute_trade env (mk_decision action conf reason raw_size raw_sl JNaN)
                    current_price False w = (Inr True, w2 @ evs)
              \<and> 1 \<le> attempts evs"
    using execute_trade_checked
            [OF act size _ fmt _ sl opened resolved entry, of JNaN NaN conf reason] ok
    by simp
  then show ?thesis by (cases entry) simp_all
qed

theorem execute_trade_direction_check_nan_witness:
  "validate_decision_format decision_nan_target
   \<and> echo_decision decision_nan_target = Inr ()
   \<and> \<not> fl_gt NaN (Fin 3500)
   \<and> (\<exists>evs. execute_trade env_position decision_nan_target (Fin 3490) False []
               = (Inr True,
                  [Request ''POST'' ''/api/v5/trade/order'' (order_params ''buy'' ''long'' ''0.05''),
                   Sleep 5, ev_positions] @ evs)
            \<and> 1 \<le> attempts evs)"
proof -
  have c: "clamp_position_size (JNum 0.005) = Inr (Fin 0.005)"
    by (simp add: clamp_position_size_def MIN_ORDER_SIZE_def MAX_ORDER_SIZE_def)
  have f: "py_format_float (JNum 3400) = Inr ()"
    by (simp add: FLOAT_LIMIT_def)
  have "\<exists>evs. execute_trade env_position decision_nan_target (Fin 3490) False []
               = (Inr True,
                  [Request ''POST'' ''/api/v5/trade/order'' (order_params ''buy'' ''long'' ''0.05''),
                   Sleep 5, ev_positions] @ evs)
            \<and> 1 \<le> attempts evs"
    using execute_trade_direction_check_nan
            [where action = "''open_long''" and raw_size = "JNum 0.005" and q = "Fin 0.005"
               and raw_sl = "JNum 3400" and sl = "Fin 3400" and env = env_position and w = "[]"
               and resolved = "Some (Fin 3500)" and entry = "Fin 3500"
               and current_price = "Fin 3490" and conf = "''high''" and reason = "''breakout''",
             OF _ c _ f _ _ place_order_examples(1) entry_price_example]
    by (simp add: decision_nan_target_def)
  then show ?thesis by (simp add: nan_target_validated)
qed

section \<open>The heuristic tier\<close>

lemma extract_action_valid:
  "extract_action env response idxs cur = Inr a \<Longrightarrow> cur \<in> set valid_actions \<Longrightarrow>
   a \<in> set valid_actions"
  by (induction idxs) (auto simp: ex_bind_def Let_def split: sum.splits option.splits if_splits)

lemma build_standard_shape:
  assumes "build_standard_decision_from_response env response = Inr d"
  shows "\<exists>a reason. d = mk_decision a ''medium'' reason (JNum 0) (JNum 0) (JNum 0)
           \<and> a \<in> set valid_actions \<and> reason \<noteq> []"
proof -
  from assms obtain a reason where
    a: "extract_action env response [0, 1, 2] ''hold'' = Inr a" and
    d: "d = mk_decision a ''medium'' (if reason = [] then reason_default else reason)
              (JNum 0) (JNum 0) (JNum 0)"
    unfolding build_standard_decision_from_response_def
    by (auto simp: ex_bind_def ex_try_def split: sum.splits)
  have "a \<in> set valid_actions"
    using extract_action_valid[OF a] by (simp add: valid_actions_def)
  moreover have "(if reason = [] then reason_default else reason) \<noteq> []"
    by (simp add: reason_default_def)
  ultimately show ?thesis using d by blast
qed

text \<open>
  C9. A decision built by the heuristic tier has a valid action, the confidence level
  medium and the size and both prices 0; only action and reason come from the text. Given
  to \<open>execute_trade\<close> in any environment, it returns True with the trace unchanged: no
  request at all is made, so no market order is submitted.
\<close>

theorem heuristic_decision_never_trades:
  assumes "build_standard_decision_from_response env response = Inr d"
  shows "(\<exists>action reason. d = mk_decision action ''medium'' reason (JNum 0) (JNum 0) (JNum 0)
            \<and> action \<in> set valid_actions)
         \<and> execute_trade env' d price is_test w = (Inr True, w)"
proof -
  from build_standard_shape[OF assms] obtain a reason where
    d: "d = mk_decision a ''medium'' reason (JNum 0) (JNum 0) (JNum 0)"
    and a: "a \<in> set valid_actions"
    by blast
  have "execute_trade env' d price is_test w = (Inr True, w)"
    unfolding d
    by (rule execute_trade_skipped[OF a, of "JNum 0" "Fin 0"])
       (simp_all add: clamp_position_size_def MIN_ORDER_SIZE_def)
  with d a show ?thesis by blast
qed

lemma build_standard_example:
  "build_standard_decision_from_response env_extra_key reply_extra_key
     = Inr (mk_decision ''open_long'' ''medium'' ''breakout'' (JNum 0) (JNum 0) (JNum 0))"
  by (simp add: build_standard_decision_from_response_def env_extra_key_def env_offline_def
      valid_actions_def)

theorem heuristic_decision_never_trades_witness:
  "build_standard_decision_from_response env_extra_key reply_extra_key
     = Inr (mk_decision ''open_long'' ''medium'' ''breakout'' (JNum 0) (JNum 0) (JNum 0))
   \<and> execute_trade env_position
        (mk_decision ''open_long'' ''medium'' ''breakout'' (JNum 0) (JNum 0) (JNum 0))
        (Fin 3500) False [] = (Inr True, [])"
  using heuristic_decision_never_trades[OF build_standard_example,
          where env' = env_position and price = "Fin 3500" and is_test = False and w = "[]"]
        build_standard_example
  by simp

section \<open>The parser\<close>

lemma validate_mk_decision:
  "a \<in> set valid_actions \<Longrightarrow> c \<in> set valid_confidences \<Longrightarrow>
   validate_decision_format (mk_decision a c r psize sl tp)"
  by (simp add: validate_decision_format_def validate_body_def mk_decision_def)

lemma try_matches_validated:
  "try_matches env ms = Some d \<Longrightarrow> validate_decision_format d"
  by (induction ms) (auto split: sum.splits if_splits)

text \<open>The parser never raises, and what it returns passes the program's own validator.\<close>

lemma parse_ai_response_validated:
  "\<exists>d. parse_ai_response env response = Inr d \<and> validate_decision_format d"
proof -
  have dflt: "validate_decision_format default_hold_decision"
    unfolding default_hold_decision_def
    by (rule validate_mk_decision) (simp_all add: valid_actions_def valid_confidences_def)
  have heur: "validate_decision_format d"
    if "build_standard_decision_from_response env response = Inr d" for d
  proof -
    from build_standard_shape[OF that] obtain a reason where
      "d = mk_decision a ''medium'' reason (JNum 0) (JNum 0) (JNum 0)" "a \<in> set valid_actions"
      by blast
    then show ?thesis
      using validate_mk_decision[of a "''medium''"] by (simp add: valid_confidences_def)
  qed
  show ?thesis
  proof (cases "parse_whole env response")
    case (Some d)
    then show ?thesis
      by (auto simp: parse_ai_response_def parse_whole_def split: sum.splits if_splits)
  next
    case None
    show ?thesis
    proof (cases "re_findall_template env response")
      case (Inl e)
      then show ?thesis using None dflt by (simp add: parse_ai_response_def)
    next
      case (Inr ms)
      show ?thesis
      proof (cases "try_matches env ms")
        case (Some d)
        then show ?thesis
          using None Inr try_matches_validated by (simp add: parse_ai_response_def)
      next
        case N: None
        show ?thesis
          using None Inr N dflt heur
          by (cases "build_standard_decision_from_response env response")
             (simp_all add: parse_ai_response_def)
      qed
    qed
  qed
qed

lemma extract_action_nothing:
  "\<forall>i\<in>set idxs. re_search_action env i response = Inr None \<Longrightarrow>
   extract_action env response idxs cur = Inr cur"
  by (induction idxs) simp_all

text \<open>When no tier extracts an action, the result is a hold of size 0.\<close>

lemma parse_ai_response_nothing_extracted:
  assumes "parse_whole env response = None"
      and "re_findall_template env response = Inr ms" and "try_matches env ms = None"
      and "\<forall>i\<in>set [0, 1, 2]. re_search_action env i response = Inr None"
  shows "\<exists>c reason. parse_ai_response env response
                        = Inr (mk_decision ''hold'' c reason (JNum 0) (JNum 0) (JNum 0))"
proof -
  have a: "extract_action env response [0, 1, 2] ''hold'' = Inr ''hold''"
    using assms(4) by (rule extract_action_nothing)
  show ?thesis
  proof (cases "extract_reason env response [0, 1, 2] []")
    case (Inl e)
    then have "parse_ai_response env response = Inr default_hold_decision"
      using assms(1-3) a
      by (simp add: parse_ai_response_def build_standard_decision_from_response_def)
    then show ?thesis unfolding default_hold_decision_def by blast
  next
    case (Inr reason)
    then have "parse_ai_response env response
                 = Inr (mk_decision ''hold'' ''medium''
                          (if reason = [] then reason_default else reason)
                          (JNum 0) (JNum 0) (JNum 0))"
      using assms(1-3) a
      by (simp add: parse_ai_response_def build_standard_decision_from_response_def)
    then show ?thesis by blast
  qed
qed

text \<open>
  C1, where the code departs from the claim. Let the whole reply decode to an object whose
  \<open>trading_decision\<close> is well formed and whose \<open>position_management\<close> is the list
  of the three field names. The validator tests the fields with \<open>in\<close>, which on a list
  is element membership, so the first tier accepts the reply and the parser returns that
  object: its \<open>position_management\<close> is not an object and has no sub-fields, reading
  \<open>position_size\<close> from it raises TypeError, and the result is not schema-valid.
\<close>

theorem parse_ai_response_accepts_list_position_management:
  assumes "json_loads env response = Inr d"
      and "d = JObj [(''trading_decision'',
                        JObj [(''action'', JStr a), (''confidence_level'', JStr c),
                              (''reason'', r)]),
                     (''position_management'',
                        JArr [JStr ''position_size'', JStr ''stop_loss_price'',
                              JStr ''take_profit_price''])]"
      and "a \<in> set valid_actions" and "c \<in> set valid_confidences"
  shows "parse_ai_response env response = Inr d
         \<and> \<not> schema_valid d
         \<and> ex_bind (py_getitem d ''position_management'') (\<lambda>pm. py_getitem pm ''position_size'')
             = Inl TypeError"
proof -
  have v: "validate_decision_format d"
    using assms(3,4) unfolding assms(2)
    by (simp add: validate_decision_format_def validate_body_def)
  have "parse_ai_response env response = Inr d"
    using assms(1) v by (simp add: parse_ai_response_def parse_whole_def)
  moreover have "\<not> schema_valid d"
    unfolding assms(2) by (simp add: schema_valid_def has_fields_def)
  moreover have "ex_bind (py_getitem d ''position_management'')
                   (\<lambda>pm. py_getitem pm ''position_size'') = Inl TypeError"
    unfolding assms(2) by simp
  ultimately show ?thesis by blast
qed

theorem parse_ai_response_accepts_list_position_management_witness:
  "parse_ai_response env_list_pm reply_list_pm = Inr decision_list_pm
   \<and> \<not> schema_valid decision_list_pm
   \<and> ex_bind (py_getitem decision_list_pm ''position_management'')
        (\<lambda>pm. py_getitem pm ''position_size'') = Inl TypeError"
proof -
  have j: "json_loads env_list_pm reply_list_pm = Inr decision_list_pm"
    by (simp add: env_list_pm_def env_offline_def)
  have d: "decision_list_pm =
             JObj [(''trading_decision'',
                      JObj [(''action'', JStr ''hold''), (''confidence_level'', JStr ''low''),
                            (''reason'', JStr ''wait'')]),
                   (''position_management'',
                      JArr [JStr ''position_size'', JStr ''stop_loss_price'',
                            JStr ''take_profit_price''])]"
    by (simp add: decision_list_pm_def)
  have a: "''hold'' \<in> set valid_actions" and c: "''low'' \<in> set valid_confidences"
    by (simp_all add: valid_actions_def valid_confidences_def)
  show ?thesis
    by (rule parse_ai_response_accepts_list_position_management[OF j d a c])
qed

lemma brace_substring_example: "brace_substring reply_extra_key = Some json_extra_key"
  by (simp add: brace_substring_def py_find_def py_rfind_def py_slice_def reply_extra_key_def
      json_extra_key_def Let_def)

lemma json_extra_key_differs: "reply_extra_key \<noteq> json_extra_key"
  by (simp add: reply_extra_key_def json_extra_key_def)

lemma validate_extra_key:
  "validate_decision_format decision_extra_key" "validate_decision_format_v1 decision_extra_key"
  by (simp_all add: validate_decision_format_def validate_body_def validate_decision_format_v1_def
      validate_body_v1_def decision_extra_key_def valid_actions_def valid_actions_v1_def
      valid_confidences_def)

text \<open>
  C7, as stated, fails on OKX_AI_ETHv5.py. The reply \<open>reply_extra_key\<close> is not JSON as a whole and has
  no match of the template pattern (its object has a third member), while the text from
  its first opening to its last closing brace decodes to a decision that passes
  validation, with size 0.005. The parser does not return that decision: it goes on to the
  heuristic tier and returns the action with size 0.
\<close>

theorem parse_ai_response_skips_brace_substring:
  "brace_substring reply_extra_key = Some json_extra_key
   \<and> json_loads env_extra_key json_extra_key = Inr decision_extra_key
   \<and> validate_decision_format decision_extra_key
   \<and> parse_ai_response env_extra_key reply_extra_key
       = Inr (mk_decision ''open_long'' ''medium'' ''breakout'' (JNum 0) (JNum 0) (JNum 0))
   \<and> parse_ai_response env_extra_key reply_extra_key \<noteq> Inr decision_extra_key"
proof -
  have w: "parse_whole env_extra_key reply_extra_key = None"
    using json_extra_key_differs
    by (simp add: parse_whole_def env_extra_key_def env_offline_def)
  have m: "re_findall_template env_extra_key reply_extra_key = Inr []"
    by (simp add: env_extra_key_def env_offline_def)
  have j: "json_loads env_extra_key json_extra_key = Inr decision_extra_key"
    by (simp add: env_extra_key_def env_offline_def)
  have p: "parse_ai_response env_extra_key reply_extra_key
       = Inr (mk_decision ''open_long'' ''medium'' ''breakout'' (JNum 0) (JNum 0) (JNum 0))"
    by (simp add: parse_ai_response_def w m build_standard_example)
  have n: "mk_decision ''open_long'' ''medium'' ''breakout'' (JNum 0) (JNum 0) (JNum 0)
             \<noteq> decision_extra_key"
    by (simp add: mk_decision_def decision_extra_key_def)
  show ?thesis
    using brace_substring_example j validate_extra_key(1) p n by simp
qed

text \<open>
  C7, amended. In OKX_AI_ETHv5.py the tiers are, in this order, the whole reply, the
  matches of the template pattern and the heuristic extraction: when the first two yield
  nothing the result is the heuristic tier's (the safe default if it raises), whatever
  lies between the braces. The brace-delimited substring is a tier of OKX_AI_ETHv1.py
  only, where it is the third and last, after the whole reply and the matches of the
  nested-object pattern: when the first two yield nothing the result is the decoded
  substring if it decodes and passes validation, and the safe default otherwise.
\<close>

theorem parser_tiers_by_version:
  "(parse_whole env r = Some d \<longrightarrow> parse_ai_response env r = Inr d)
   \<and> (parse_whole env r = None \<and> re_findall_template env r = Inr ms \<and> try_matches env ms = Some d
      \<longrightarrow> parse_ai_response env r = Inr d)
   \<and> (parse_whole env r = None \<and> re_findall_template env r = Inr ms \<and> try_matches env ms = None
      \<longrightarrow> parse_ai_response env r =
            (case build_standard_decision_from_response env r of
               Inl e \<Rightarrow> Inr default_hold_decision | Inr d' \<Rightarrow> Inr d'))
   \<and> (parse_whole_v1 env r = Some d \<longrightarrow> parse_ai_response_v1 env r = Inr d)
   \<and> (parse_whole_v1 env r = None \<and> re_finditer_nested env r = Inr ms'
        \<and> try_matches_v1 env ms' = Some d
      \<longrightarrow> parse_ai_response_v1 env r = Inr d)
   \<and> (parse_whole_v1 env r = None \<and> re_finditer_nested env r = Inr ms'
        \<and> try_matches_v1 env ms' = None
      \<longrightarrow> parse_ai_response_v1 env r =
            (case brace_substring r of
               None \<Rightarrow> Inr default_hold_decision
             | Some s \<Rightarrow>
                 (case json_loads env s of
                    Inl e \<Rightarrow> Inr default_hold_decision
                  | Inr d' \<Rightarrow>
                      if validate_decision_format_v1 d' then Inr d'
                      else Inr default_hold_decision)))"
  by (auto simp: parse_ai_response_def parse_ai_response_v1_def parse_braces_v1_def
      parse_whole_v1_def split: option.splits sum.splits)

theorem parser_tiers_by_version_witness:
  "parse_ai_response env_extra_key reply_extra_key
     = Inr (mk_decision ''open_long'' ''medium'' ''breakout'' (JNum 0) (JNum 0) (JNum 0))
   \<and> parse_ai_response_v1 env_extra_key reply_extra_key = Inr decision_extra_key"
proof -
  have w: "parse_whole env_extra_key reply_extra_key = None"
          "parse_whole_v1 env_extra_key reply_extra_key = None"
    using json_extra_key_differs
    by (simp_all add: parse_whole_def parse_whole_v1_def env_extra_key_def env_offline_def)
  have m: "re_findall_template env_extra_key reply_extra_key = Inr []"
          "re_finditer_nested env_extra_key reply_extra_key = Inr []"
    by (simp_all add: env_extra_key_def env_offline_def)
  have j: "json_loads env_extra_key json_extra_key = Inr decision_extra_key"
    by (simp add: env_extra_key_def env_offline_def)
  show ?thesis
    using parser_tiers_by_version
            [where env = env_extra_key and r = reply_extra_key and ms = "[]" and ms' = "[]"]
          w m j build_standard_example brace_substring_example validate_extra_key
    by simp
qed

end
